theory Spec2Isabelle
  imports Main
begin

section \<open>The icon generator of scripts/generate_icons.py\<close>

text \<open>
  The script reads one image and writes five resized PNG copies of it. Everything it
  does beyond control flow is a call into Pillow or into the \<open>os\<close> module, or a
  \<open>print\<close>. Pillow, the file system and standard output are not part of the script, so
  they are parameters of the model (the record \<open>env\<close>), and every call into them can
  raise; what the script itself decides -- the size table, the order of
  the calls, the paths, the single \<open>try\<close>/\<open>except\<close>, the printed lines -- is
  translated statement by statement.
\<close>

subsection \<open>Data\<close>

type_synonym path = string
type_synonym bytes = string

text \<open>
  An instance of Python's \<open>Exception\<close>, the class the handler of the script names;
  \<open>message\<close> is what \<open>str(e)\<close> gives. What the interpreter raises
  asynchronously (\<open>KeyboardInterrupt\<close>, \<open>SystemExit\<close>) is outside this sequential
  model.
\<close>

datatype exn = Exception (message: string)

text \<open>\<open>Image.Resampling\<close> of Pillow.\<close>

datatype resampling = NEAREST | BOX | BILINEAR | HAMMING | BICUBIC | LANCZOS

text \<open>A decoded Pillow image: its \<open>mode\<close> and \<open>size\<close> attributes and its pixel data.\<close>

record image =
  mode :: string
  imsize :: "int \<times> int"
  pixels :: bytes

text \<open>The file system: the directories that exist and the content of every file.\<close>

record filesystem =
  dirs :: "path set"
  files :: "path \<rightharpoonup> bytes"

text \<open>The external calls the script makes, logged in the order they are made.\<close>

datatype call =
    Call_exists path
  | Call_open path
  | Call_convert string
  | Call_makedirs path bool
  | Call_resize "int \<times> int" resampling
  | Call_save path string

text \<open>
  The state a run threads through: the file system, the lines that reached standard
  output (as UTF-8 bytes, one string per \<open>print\<close>), and the log of external calls.
\<close>

record world =
  disk :: filesystem
  stdout :: "string list"
  calls :: "call list"

text \<open>
  The collaborators. A call that can raise returns the exception (\<open>Inl\<close>, or
  \<open>Some\<close> for a call without result); a call that touches the file system returns
  the file system it leaves behind, also when it raises.
  \<^item> \<open>path_exists\<close>: \<open>os.path.exists\<close>
  \<^item> \<open>pil_open\<close>: \<open>Image.open\<close>
  \<^item> \<open>pil_convert\<close>: \<open>Image.convert\<close>
  \<^item> \<open>os_mkdirs\<close>: \<open>os.makedirs(path, exist_ok=...)\<close>
  \<^item> \<open>pil_resize\<close>: \<open>Image.resize\<close>
  \<^item> \<open>pil_save\<close>: \<open>Image.save(path, format)\<close>
  \<^item> \<open>pil_encode\<close>: the bytes Pillow's encoder of a format produces for an image
  \<^item> \<open>stdout_error\<close>: the exception \<open>print\<close> raises for a text, if any, given the
    lines printed so far (\<open>UnicodeEncodeError\<close> when the encoding of standard output
    has no code for a character of the text, \<open>OSError\<close> when the stream is broken)

  Pillow opens lazily: \<open>Image.open\<close> reads the header, and the pixel data are read by
  the first operation that needs them. An \<open>image\<close> value stands for the opened file
  together with what that first read will give, so a decoding error that Pillow defers
  shows here as \<open>pil_convert\<close> or \<open>pil_resize\<close> raising. Paths are joined as
  \<open>posixpath\<close> joins them.
\<close>

record env =
  path_exists :: "filesystem \<Rightarrow> path \<Rightarrow> bool"
  pil_open :: "filesystem \<Rightarrow> path \<Rightarrow> exn + image"
  pil_convert :: "image \<Rightarrow> string \<Rightarrow> exn + image"
  os_mkdirs :: "filesystem \<Rightarrow> path \<Rightarrow> bool \<Rightarrow> exn option \<times> filesystem"
  pil_resize :: "image \<Rightarrow> int \<times> int \<Rightarrow> resampling \<Rightarrow> exn + image"
  pil_save :: "filesystem \<Rightarrow> image \<Rightarrow> path \<Rightarrow> string \<Rightarrow> exn option \<times> filesystem"
  pil_encode :: "string \<Rightarrow> image \<Rightarrow> bytes"
  stdout_error :: "string list \<Rightarrow> string \<Rightarrow> exn option"

subsection \<open>Primitive steps\<close>

text \<open>
  \<open>print\<close>: the text is encoded before anything is written, so a text that cannot be
  printed leaves the output as it was.
\<close>

definition print :: "env \<Rightarrow> string \<Rightarrow> world \<Rightarrow> exn option \<times> world" where
  "print E line w =
     (case stdout_error E (stdout w) line of
        Some e \<Rightarrow> (Some e, w)
      | None \<Rightarrow> (None, w\<lparr>stdout := stdout w @ [line]\<rparr>))"

definition log_call :: "call \<Rightarrow> world \<Rightarrow> world" where
  "log_call c w = w\<lparr>calls := calls w @ [c]\<rparr>"

definition os_path_exists :: "env \<Rightarrow> path \<Rightarrow> world \<Rightarrow> bool \<times> world" where
  "os_path_exists E p w = (path_exists E (disk w) p, log_call (Call_exists p) w)"

definition Image_open :: "env \<Rightarrow> path \<Rightarrow> world \<Rightarrow> (exn + image) \<times> world" where
  "Image_open E p w = (pil_open E (disk w) p, log_call (Call_open p) w)"

definition convert :: "env \<Rightarrow> image \<Rightarrow> string \<Rightarrow> world \<Rightarrow> (exn + image) \<times> world" where
  "convert E im m w = (pil_convert E im m, log_call (Call_convert m) w)"

definition os_makedirs :: "env \<Rightarrow> path \<Rightarrow> bool \<Rightarrow> world \<Rightarrow> exn option \<times> world" where
  "os_makedirs E p exist_ok w =
     (case os_mkdirs E (disk w) p exist_ok of
        (r, d) \<Rightarrow> (r, log_call (Call_makedirs p exist_ok) (w\<lparr>disk := d\<rparr>)))"

definition resize :: "env \<Rightarrow> image \<Rightarrow> int \<times> int \<Rightarrow> resampling \<Rightarrow> world \<Rightarrow> (exn + image) \<times> world" where
  "resize E im sz f w = (pil_resize E im sz f, log_call (Call_resize sz f) w)"

definition save :: "env \<Rightarrow> image \<Rightarrow> path \<Rightarrow> string \<Rightarrow> world \<Rightarrow> exn option \<times> world" where
  "save E im p fmt w =
     (case pil_save E (disk w) im p fmt of
        (r, d) \<Rightarrow> (r, log_call (Call_save p fmt) (w\<lparr>disk := d\<rparr>)))"

text \<open>\<open>os.path.join\<close> of two components (\<open>posixpath\<close>).\<close>

definition os_path_join :: "path \<Rightarrow> path \<Rightarrow> path" where
  "os_path_join a b =
     (if b \<noteq> [] \<and> hd b = CHR ''/'' then b
      else if a = [] \<or> last a = CHR ''/'' then a @ b
      else a @ ''/'' @ b)"

text \<open>\<open>str\<close> of an integer, for the f-strings.\<close>

fun str_nat :: "nat \<Rightarrow> string" where
  "str_nat n =
     (if n < 10 then [''0123456789'' ! n]
      else str_nat (n div 10) @ [''0123456789'' ! (n mod 10)])"

declare str_nat.simps [simp del]

definition str_int :: "int \<Rightarrow> string" where
  "str_int i = (if i < 0 then ''-'' @ str_nat (nat (- i)) else str_nat (nat i))"

subsection \<open>The script\<close>

text \<open>The dictionary \<open>sizes\<close>, in insertion order, which is the order \<open>items()\<close> yields.\<close>

definition sizes :: "(string \<times> int) list" where
  "sizes =
     [(''mipmap-mdpi'', 48),
      (''mipmap-hdpi'', 72),
      (''mipmap-xhdpi'', 96),
      (''mipmap-xxhdpi'', 144),
      (''mipmap-xxxhdpi'', 192)]"

text \<open>The printed lines. The two emoji are written as their UTF-8 bytes.\<close>

definition check_mark :: string where
  "check_mark = [CHR 0xE2, CHR 0x9C, CHR 0x85]"

definition cross_mark :: string where
  "cross_mark = [CHR 0xE2, CHR 0x9D, CHR 0x8C]"

definition generated_line :: "path \<Rightarrow> int \<Rightarrow> string" where
  "generated_line output_path size_px =
     ''Generated: '' @ output_path @ '' ('' @ str_int size_px @ ''x'' @ str_int size_px @ '')''"

text \<open>The \<open>for\<close> loop over \<open>sizes.items()\<close>; an exception leaves the loop at once.\<close>

fun icons_loop ::
  "env \<Rightarrow> path \<Rightarrow> image \<Rightarrow> (string \<times> int) list \<Rightarrow> world \<Rightarrow> (exn + unit) \<times> world" where
  "icons_loop E output_dir source_img [] w = (Inr (), w)"
| "icons_loop E output_dir source_img ((folder, size_px) # rest) w =
     (let folder_path = os_path_join output_dir folder in
      case os_makedirs E folder_path True w of
        (Some e, w1) \<Rightarrow> (Inl e, w1)
      | (None, w1) \<Rightarrow>
          (case resize E source_img (size_px, size_px) LANCZOS w1 of
             (Inl e, w2) \<Rightarrow> (Inl e, w2)
           | (Inr resized_img, w2) \<Rightarrow>
               (let output_path = os_path_join folder_path ''ic_launcher.png'' in
                case save E resized_img output_path ''PNG'' w2 of
                  (Some e, w3) \<Rightarrow> (Inl e, w3)
                | (None, w3) \<Rightarrow>
                    (case print E (generated_line output_path size_px) w3 of
                       (Some e, w4) \<Rightarrow> (Inl e, w4)
                     | (None, w4) \<Rightarrow> icons_loop E output_dir source_img rest w4))))"

text \<open>The body of the \<open>try\<close> block: \<open>Inl e\<close> when a statement of it raises \<open>e\<close>.\<close>

definition try_block :: "env \<Rightarrow> path \<Rightarrow> path \<Rightarrow> world \<Rightarrow> (exn + unit) \<times> world" where
  "try_block E source_path output_dir w =
     (case Image_open E source_path w of
        (Inl e, w1) \<Rightarrow> (Inl e, w1)
      | (Inr source_img, w1) \<Rightarrow>
          (case print E (''Loaded source image: '' @ source_path) w1 of
             (Some e, w2) \<Rightarrow> (Inl e, w2)
           | (None, w2) \<Rightarrow>
               (case (if mode source_img \<noteq> ''RGBA'' then convert E source_img ''RGBA'' w2
                      else (Inr source_img, w2)) of
                  (Inl e, w3) \<Rightarrow> (Inl e, w3)
                | (Inr source_img', w3) \<Rightarrow>
                    (case icons_loop E output_dir source_img' sizes w3 of
                       (Inl e, w4) \<Rightarrow> (Inl e, w4)
                     | (Inr u, w4) \<Rightarrow>
                         (case print E
                                 (check_mark @ '' Android icons generated successfully!'') w4 of
                            (Some e, w5) \<Rightarrow> (Inl e, w5)
                          | (None, w5) \<Rightarrow> (Inr (), w5))))))"

text \<open>
  The \<open>except Exception as e\<close> clause. What a statement of the handler raises is not
  caught by it: it leaves the function.
\<close>

definition except_block :: "env \<Rightarrow> exn \<Rightarrow> world \<Rightarrow> (exn + unit) \<times> world" where
  "except_block E e w =
     (case print E (cross_mark @ '' Error: '' @ message e) w of
        (Some e1, w1) \<Rightarrow> (Inl e1, w1)
      | (None, w1) \<Rightarrow>
          (case print E ''Make sure you have Pillow installed: pip install Pillow'' w1 of
             (Some e2, w2) \<Rightarrow> (Inl e2, w2)
           | (None, w2) \<Rightarrow> (Inr (), w2)))"

text \<open>
  The function. Its result is \<open>Inr ()\<close> when it returns (\<open>None\<close>, the only value it
  can return) and \<open>Inl e\<close> when \<open>e\<close> leaves it.
\<close>

definition generate_android_icons :: "env \<Rightarrow> path \<Rightarrow> path \<Rightarrow> world \<Rightarrow> (exn + unit) \<times> world" where
  "generate_android_icons E source_path output_dir w =
     (case try_block E source_path output_dir w of
        (Inr u, w') \<Rightarrow> (Inr (), w')
      | (Inl e, w') \<Rightarrow> except_block E e w')"

text \<open>The \<open>__main__\<close> block.\<close>

definition source_image :: path where
  "source_image = ''assets/images/app_logo.png''"

definition android_res_dir :: path where
  "android_res_dir = ''android/app/src/main/res''"

definition main :: "env \<Rightarrow> world \<Rightarrow> (exn + unit) \<times> world" where
  "main E w =
     (case os_path_exists E source_image w of
        (True, w1) \<Rightarrow> generate_android_icons E source_image android_res_dir w1
      | (False, w1) \<Rightarrow>
          (case print E (cross_mark @ '' Source image not found: '' @ source_image) w1 of
             (Some e, w2) \<Rightarrow> (Inl e, w2)
           | (None, w2) \<Rightarrow>
               (case print E ''Please save your logo image as assets/images/app_logo.png'' w2 of
                  (Some e, w3) \<Rightarrow> (Inl e, w3)
                | (None, w3) \<Rightarrow> (Inr (), w3))))"

text \<open>The exit status of the interpreter: 0 when the script ends, 1 on an uncaught exception.\<close>

definition exit_status :: "exn + unit \<Rightarrow> nat" where
  "exit_status r = (case r of Inr u \<Rightarrow> 0 | Inl e \<Rightarrow> 1)"

subsection \<open>Notions the properties are stated with\<close>

text \<open>The path the loop computes for the file of a table entry (\<open>output_path\<close>).\<close>

definition icon_path :: "path \<Rightarrow> string \<Rightarrow> path" where
  "icon_path output_dir folder =
     os_path_join (os_path_join output_dir folder) ''ic_launcher.png''"

text \<open>The external calls of one complete iteration of the loop, in order.\<close>

definition entry_calls :: "path \<Rightarrow> string \<times> int \<Rightarrow> call list" where
  "entry_calls output_dir entry =
     [Call_makedirs (os_path_join output_dir (fst entry)) True,
      Call_resize (snd entry, snd entry) LANCZOS,
      Call_save (icon_path output_dir (fst entry)) ''PNG'']"


fun is_convert :: "call \<Rightarrow> bool" where
  "is_convert (Call_convert m) = True"
| "is_convert c = False"

text \<open>
  Lines 28-29 without the log: the image the loop works on, given the decoded one.
\<close>

definition normalize :: "env \<Rightarrow> image \<Rightarrow> exn + image" where
  "normalize E source_img =
     (if mode source_img \<noteq> ''RGBA'' then pil_convert E source_img ''RGBA''
      else Inr source_img)"

text \<open>
  The files a complete pass of the loop over a table writes, on top of the files \<open>f\<close>
  that were there.
\<close>

fun written ::
  "env \<Rightarrow> path \<Rightarrow> image \<Rightarrow> (string \<times> int) list \<Rightarrow> (path \<rightharpoonup> bytes) \<Rightarrow> (path \<rightharpoonup> bytes)" where
  "written E output_dir img [] f = f"
| "written E output_dir img ((folder, size_px) # rest) f =
     (case pil_resize E img (size_px, size_px) LANCZOS of
        Inl e \<Rightarrow> f
      | Inr r \<Rightarrow>
          written E output_dir img rest
            (f(icon_path output_dir folder \<mapsto> pil_encode E ''PNG'' r)))"

text \<open>What \<open>os.path.join\<close> puts in front of a relative component.\<close>

definition out_prefix :: "path \<Rightarrow> path" where
  "out_prefix output_dir =
     (if output_dir = [] \<or> last output_dir = CHR ''/'' then output_dir else output_dir @ ''/'')"

text \<open>
  Pillow's modes that carry an alpha band (the list its \<open>has_transparency_data\<close>
  tests the mode against).
\<close>

definition alpha_modes :: "string list" where
  "alpha_modes = [''LA'', ''La'', ''PA'', ''RGBA'', ''RGBa'']"

definition has_alpha :: "image \<Rightarrow> bool" where
  "has_alpha im \<longleftrightarrow> mode im \<in> set alpha_modes"




subsection \<open>What the script relies on from Pillow and the operating system\<close>

text \<open>
  \<open>Image.resize\<close> returns an image of the size asked for, in the mode of its argument;
  \<open>Image.convert\<close> returns an image of the mode asked for.
\<close>

definition resize_contract :: "env \<Rightarrow> bool" where
  "resize_contract E \<longleftrightarrow>
     (\<forall>im sz f r. pil_resize E im sz f = Inr r \<longrightarrow> imsize r = sz \<and> mode r = mode im)"

definition convert_contract :: "env \<Rightarrow> bool" where
  "convert_contract E \<longleftrightarrow> (\<forall>im m r. pil_convert E im m = Inr r \<longrightarrow> mode r = m)"

text \<open>
  \<open>os.makedirs\<close> touches no file and removes no directory, whether it raises or not;
  when it returns, the directory exists.
\<close>

definition makedirs_contract :: "env \<Rightarrow> bool" where
  "makedirs_contract E \<longleftrightarrow>
     (\<forall>d p ok r d'. os_mkdirs E d p ok = (r, d') \<longrightarrow>
        files d' = files d \<and> dirs d \<subseteq> dirs d' \<and> (r = None \<longrightarrow> p \<in> dirs d'))"

text \<open>
  \<open>Image.save\<close> touches no directory and no file but the one it is given, whether it
  raises or not; when it returns, that file holds the encoding of the image.
\<close>

definition save_contract :: "env \<Rightarrow> bool" where
  "save_contract E \<longleftrightarrow>
     (\<forall>d im p fmt r d'. pil_save E d im p fmt = (r, d') \<longrightarrow>
        dirs d' = dirs d \<and> (\<forall>q. q \<noteq> p \<longrightarrow> files d' q = files d q) \<and>
        (r = None \<longrightarrow> files d' p = Some (pil_encode E fmt im)))"

text \<open>
  With \<open>exist_ok\<close>, \<open>os.makedirs\<close> on a directory that exists makes no directory.
\<close>

definition makedirs_exist_ok :: "env \<Rightarrow> bool" where
  "makedirs_exist_ok E \<longleftrightarrow>
     (\<forall>d p r d'. p \<in> dirs d \<and> os_mkdirs E d p True = (r, d') \<longrightarrow> dirs d' = dirs d)"

subsection \<open>A concrete environment\<close>

text \<open>
  A small Pillow and file system to run the script in: a file decodes by its first
  bytes, converting and resizing set the attribute, every directory can be made, an
  encoded image is the text of its format, mode and size, and standard output takes
  every text (a UTF-8 terminal).
\<close>

definition demo_encode :: "string \<Rightarrow> image \<Rightarrow> bytes" where
  "demo_encode fmt im =
     fmt @ '' '' @ mode im @ '' '' @ str_int (fst (imsize im)) @ ''x'' @ str_int (snd (imsize im))"

definition demo_open :: "filesystem \<Rightarrow> path \<Rightarrow> exn + image" where
  "demo_open d p =
     (case files d p of
        None \<Rightarrow> Inl (Exception ''[Errno 2] No such file or directory'')
      | Some b \<Rightarrow>
          if take 4 b = ''RGBA'' then Inr \<lparr>mode = ''RGBA'', imsize = (512, 512), pixels = b\<rparr>
          else if take 3 b = ''RGB'' then Inr \<lparr>mode = ''RGB'', imsize = (512, 512), pixels = b\<rparr>
          else if take 2 b = ''LA'' then Inr \<lparr>mode = ''LA'', imsize = (512, 512), pixels = b\<rparr>
          else Inl (Exception ''cannot identify image file''))"

definition demo_env :: env where
  "demo_env =
     \<lparr>path_exists = (\<lambda>d p. case files d p of Some b \<Rightarrow> True | None \<Rightarrow> p \<in> dirs d),
      pil_open = demo_open,
      pil_convert = (\<lambda>im m. Inr (im\<lparr>mode := m\<rparr>)),
      os_mkdirs = (\<lambda>d p ok. (None, d\<lparr>dirs := insert p (dirs d)\<rparr>)),
      pil_resize = (\<lambda>im sz f. Inr (im\<lparr>imsize := sz\<rparr>)),
      pil_save = (\<lambda>d im p fmt. (None, d\<lparr>files := (files d)(p \<mapsto> demo_encode fmt im)\<rparr>)),
      pil_encode = demo_encode,
      stdout_error = (\<lambda>printed line. None)\<rparr>"

text \<open>The same, on a disk that is full when the third icon is written.\<close>

definition full_disk_env :: env where
  "full_disk_env =
     demo_env\<lparr>pil_save :=
       (\<lambda>d im p fmt.
          if p = ''android/app/src/main/res/mipmap-xhdpi/ic_launcher.png''
          then (Some (Exception ''[Errno 28] No space left on device''), d)
          else pil_save demo_env d im p fmt)\<rparr>"

text \<open>
  The same, with a source whose header reads but whose pixel data are cut short: the
  first operation that reads the pixels raises.
\<close>

definition truncated_env :: env where
  "truncated_env =
     demo_env\<lparr>pil_convert := (\<lambda>im m. Inl (Exception ''image file is truncated'')),
              pil_resize := (\<lambda>im sz f. Inl (Exception ''image file is truncated''))\<rparr>"

text \<open>
  The same, with a standard output in ASCII: \<open>print\<close> raises for a text with a byte
  above 127, as the two emoji have.
\<close>

definition non_ascii :: "string \<Rightarrow> bool" where
  "non_ascii line = list_ex digit7 line"

definition ascii_env :: env where
  "ascii_env =
     demo_env\<lparr>stdout_error :=
       (\<lambda>printed line.
          if non_ascii line
          then Some (Exception ''UnicodeEncodeError: ascii codec cannot encode character'')
          else None)\<rparr>"

text \<open>A world whose only file is the source image, with the given content; and an empty one.\<close>

definition demo_world :: "bytes \<Rightarrow> world" where
  "demo_world b =
     \<lparr>disk = \<lparr>dirs = {}, files = [source_image \<mapsto> b]\<rparr>, stdout = [], calls = []\<rparr>"

definition empty_world :: world where
  "empty_world = \<lparr>disk = \<lparr>dirs = {}, files = Map.empty\<rparr>, stdout = [], calls = []\<rparr>"

text \<open>The source image of \<open>demo_world ''RGB''\<close> once converted.\<close>

definition demo_img :: image where
  "demo_img = \<lparr>mode = ''RGBA'', imsize = (512, 512), pixels = ''RGB''\<rparr>"

text \<open>The world a first run of the script leaves behind.\<close>

definition once :: world where
  "once = snd (try_block demo_env source_image android_res_dir (demo_world ''RGB''))"

section \<open>Basic facts\<close>

lemma print_simps [simp]:
  "fst (print E l w) = stdout_error E (stdout w) l"
  "disk (snd (print E l w)) = disk w" "calls (snd (print E l w)) = calls w"
  "stdout (snd (print E l w)) =
     (if stdout_error E (stdout w) l = None then stdout w @ [l] else stdout w)"
  by (simp_all add: print_def split: option.splits)

lemma print_outcome:
  obtains
    (raises) e where "stdout_error E (stdout w) l = Some e" "print E l w = (Some e, w)"
  | (prints) "stdout_error E (stdout w) l = None"
      "print E l w = (None, w\<lparr>stdout := stdout w @ [l]\<rparr>)"
  by (cases "stdout_error E (stdout w) l") (simp_all add: print_def)

lemma log_call_simps [simp]:
  "disk (log_call c w) = disk w" "calls (log_call c w) = calls w @ [c]"
  "stdout (log_call c w) = stdout w"
  by (simp_all add: log_call_def)

lemma except_block_simps [simp]:
  "disk (snd (except_block E e w)) = disk w" "calls (snd (except_block E e w)) = calls w"
  by (simp_all add: except_block_def print_def split: option.splits)

lemma str_int_table [simp]:
  "str_int 48 = ''48''" "str_int 72 = ''72''" "str_int 96 = ''96''"
  "str_int 144 = ''144''" "str_int 192 = ''192''"
  by (simp_all add: str_int_def str_nat.simps)

lemmas step_defs =
  os_path_exists_def Image_open_def convert_def os_makedirs_def resize_def save_def

lemmas demo_defs =
  demo_env_def full_disk_env_def demo_open_def demo_encode_def demo_world_def
  empty_world_def source_image_def android_res_dir_def

section \<open>One iteration of the loop\<close>

lemma icons_loop_Cons_cases:
  obtains
    (mkdir_fails) e d wf where
      "os_mkdirs E (disk w) (os_path_join out folder) True = (Some e, d)"
      "icons_loop E out img ((folder, size_px) # rest) w = (Inl e, wf)"
      "disk wf = d" "stdout wf = stdout w"
      "calls wf = calls w @ [Call_makedirs (os_path_join out folder) True]"
  | (resize_fails) e d1 wf where
      "os_mkdirs E (disk w) (os_path_join out folder) True = (None, d1)"
      "pil_resize E img (size_px, size_px) LANCZOS = Inl e"
      "icons_loop E out img ((folder, size_px) # rest) w = (Inl e, wf)"
      "disk wf = d1" "stdout wf = stdout w"
      "calls wf = calls w @ [Call_makedirs (os_path_join out folder) True,
                             Call_resize (size_px, size_px) LANCZOS]"
  | (save_fails) e d1 r d2 wf where
      "os_mkdirs E (disk w) (os_path_join out folder) True = (None, d1)"
      "pil_resize E img (size_px, size_px) LANCZOS = Inr r"
      "pil_save E d1 r (icon_path out folder) ''PNG'' = (Some e, d2)"
      "icons_loop E out img ((folder, size_px) # rest) w = (Inl e, wf)"
      "disk wf = d2" "stdout wf = stdout w"
      "calls wf = calls w @ entry_calls out (folder, size_px)"
  | (print_fails) e d1 r d2 wf where
      "os_mkdirs E (disk w) (os_path_join out folder) True = (None, d1)"
      "pil_resize E img (size_px, size_px) LANCZOS = Inr r"
      "pil_save E d1 r (icon_path out folder) ''PNG'' = (None, d2)"
      "stdout_error E (stdout w) (generated_line (icon_path out folder) size_px) = Some e"
      "icons_loop E out img ((folder, size_px) # rest) w = (Inl e, wf)"
      "disk wf = d2" "stdout wf = stdout w"
      "calls wf = calls w @ entry_calls out (folder, size_px)"
  | (ok) d1 r d2 wm where
      "os_mkdirs E (disk w) (os_path_join out folder) True = (None, d1)"
      "pil_resize E img (size_px, size_px) LANCZOS = Inr r"
      "pil_save E d1 r (icon_path out folder) ''PNG'' = (None, d2)"
      "stdout_error E (stdout w) (generated_line (icon_path out folder) size_px) = None"
      "icons_loop E out img ((folder, size_px) # rest) w = icons_loop E out img rest wm"
      "disk wm = d2"
      "stdout wm = stdout w @ [generated_line (icon_path out folder) size_px]"
      "calls wm = calls w @ entry_calls out (folder, size_px)"
proof -
  obtain r1 d1 where m: "os_mkdirs E (disk w) (os_path_join out folder) True = (r1, d1)"
    by (cases "os_mkdirs E (disk w) (os_path_join out folder) True")
  let ?w1 = "log_call (Call_makedirs (os_path_join out folder) True) (w\<lparr>disk := d1\<rparr>)"
  have w1: "os_makedirs E (os_path_join out folder) True w = (r1, ?w1)"
    by (simp add: os_makedirs_def m)
  show ?thesis
  proof (cases r1)
    case (Some e)
    show ?thesis
      by (rule mkdir_fails [of e d1 ?w1]) (simp_all add: m w1 Some)
  next
    case None
    let ?w2 = "log_call (Call_resize (size_px, size_px) LANCZOS) ?w1"
    have w2: "resize E img (size_px, size_px) LANCZOS ?w1 =
        (pil_resize E img (size_px, size_px) LANCZOS, ?w2)"
      by (simp add: resize_def)
    show ?thesis
    proof (cases "pil_resize E img (size_px, size_px) LANCZOS")
      case (Inl e)
      show ?thesis
        by (rule resize_fails [of d1 e ?w2]) (simp_all add: m w1 w2 None Inl)
    next
      case (Inr r)
      obtain r3 d2 where s: "pil_save E d1 r (icon_path out folder) ''PNG'' = (r3, d2)"
        by (cases "pil_save E d1 r (icon_path out folder) ''PNG''")
      let ?w3 = "log_call (Call_save (icon_path out folder) ''PNG'') (?w2\<lparr>disk := d2\<rparr>)"
      have w3: "save E r (icon_path out folder) ''PNG'' ?w2 = (r3, ?w3)"
        by (simp add: save_def s)
      show ?thesis
      proof (cases r3)
        case (Some e)
        show ?thesis
          by (rule save_fails [of d1 r e d2 ?w3])
             (simp_all add: m w1 w2 w3 s None Inr Some entry_calls_def Let_def
                icon_path_def [symmetric])
      next
        case None': None
        let ?l = "generated_line (icon_path out folder) size_px"
        have so: "stdout ?w3 = stdout w" by simp
        show ?thesis
        proof (cases rule: print_outcome [where E = E and w = ?w3 and l = ?l])
          case (raises e)
          show ?thesis
            by (rule print_fails [of d1 r d2 e ?w3])
               (use raises in \<open>simp_all add: m w1 w2 w3 s None Inr None' entry_calls_def Let_def
                  icon_path_def [symmetric]\<close>)
        next
          case prints
          show ?thesis
            by (rule ok [of d1 r d2 "?w3\<lparr>stdout := stdout ?w3 @ [?l]\<rparr>"])
               (use prints in \<open>simp_all add: m w1 w2 w3 s None Inr None' entry_calls_def Let_def
                  icon_path_def [symmetric]\<close>)
        qed
      qed
    qed
  qed
qed

section \<open>The loop\<close>

lemma icons_loop_success_calls:
  "icons_loop E out img tbl w = (Inr u, w') \<Longrightarrow>
     calls w' = calls w @ concat (map (entry_calls out) tbl)"
proof (induction tbl arbitrary: w)
  case Nil
  then show ?case by simp
next
  case (Cons x xs)
  obtain folder size_px where x: "x = (folder, size_px)" by (cases x)
  show ?case
  proof (cases rule: icons_loop_Cons_cases
      [where E = E and w = w and out = out and folder = folder and img = img
         and size_px = size_px and rest = xs])
    case (ok d1 r d2 wm)
    with Cons.prems Cons.IH [of wm] show ?thesis by (simp add: x)
  qed (use Cons.prems in \<open>simp_all add: x\<close>)
qed

lemma icons_loop_success_written:
  assumes "makedirs_contract E" "save_contract E"
  shows "icons_loop E out img tbl w = (Inr u, w') \<Longrightarrow>
     files (disk w') = written E out img tbl (files (disk w))"
proof (induction tbl arbitrary: w)
  case Nil
  then show ?case by simp
next
  case (Cons x xs)
  obtain folder size_px where x: "x = (folder, size_px)" by (cases x)
  show ?case
  proof (cases rule: icons_loop_Cons_cases
      [where E = E and w = w and out = out and folder = folder and img = img
         and size_px = size_px and rest = xs])
    case (ok d1 r d2 wm)
    from assms(1) ok(1) have f1: "files d1 = files (disk w)"
      by (auto simp: makedirs_contract_def)
    from assms(2) ok(3) have f2: "files d2 = (files d1)(icon_path out folder \<mapsto> pil_encode E ''PNG'' r)"
      by (auto simp: save_contract_def fun_eq_iff)
    have wm: "files (disk wm) = (files (disk w))(icon_path out folder \<mapsto> pil_encode E ''PNG'' r)"
      by (simp only: ok(6) f2 f1)
    from ok Cons.prems have "icons_loop E out img xs wm = (Inr u, w')" by (simp add: x)
    from Cons.IH [OF this] have "files (disk w') = written E out img xs (files (disk wm))" .
    then show ?thesis by (simp only: wm x written.simps ok(2) sum.case)
  qed (use Cons.prems in \<open>simp_all add: x\<close>)
qed

lemma icons_loop_frame:
  assumes "makedirs_contract E" "save_contract E"
  shows "icons_loop E out img tbl w = (res, w') \<Longrightarrow>
     dirs (disk w) \<subseteq> dirs (disk w') \<and>
     (\<forall>q. q \<notin> set (map (\<lambda>entry. icon_path out (fst entry)) tbl) \<longrightarrow>
        files (disk w') q = files (disk w) q)"
proof (induction tbl arbitrary: w)
  case Nil
  then show ?case by simp
next
  case (Cons x xs)
  obtain folder size_px where x: "x = (folder, size_px)" by (cases x)
  show ?case
  proof (cases rule: icons_loop_Cons_cases
      [where E = E and w = w and out = out and folder = folder and img = img
         and size_px = size_px and rest = xs])
    case (mkdir_fails e d wf)
    from assms(1) mkdir_fails(1) have "files d = files (disk w)" "dirs (disk w) \<subseteq> dirs d"
      by (auto simp: makedirs_contract_def)
    with mkdir_fails Cons.prems show ?thesis by (simp add: x)
  next
    case (resize_fails e d1 wf)
    from assms(1) resize_fails(1) have "files d1 = files (disk w)" "dirs (disk w) \<subseteq> dirs d1"
      by (auto simp: makedirs_contract_def)
    with resize_fails Cons.prems show ?thesis by (simp add: x)
  next
    case (save_fails e d1 r d2 wf)
    from assms(1) save_fails(1) have a: "files d1 = files (disk w)" "dirs (disk w) \<subseteq> dirs d1"
      by (auto simp: makedirs_contract_def)
    from assms(2) save_fails(3)
    have b: "dirs d2 = dirs d1" "\<And>q. q \<noteq> icon_path out folder \<Longrightarrow> files d2 q = files d1 q"
      by (auto simp: save_contract_def)
    from save_fails Cons.prems a b show ?thesis by (simp add: x)
  next
    case (print_fails e d1 r d2 wf)
    from assms(1) print_fails(1) have a: "files d1 = files (disk w)" "dirs (disk w) \<subseteq> dirs d1"
      by (auto simp: makedirs_contract_def)
    from assms(2) print_fails(3)
    have b: "dirs d2 = dirs d1" "\<And>q. q \<noteq> icon_path out folder \<Longrightarrow> files d2 q = files d1 q"
      by (auto simp: save_contract_def)
    from print_fails Cons.prems a b show ?thesis by (simp add: x)
  next
    case (ok d1 r d2 wm)
    from assms(1) ok(1) have a: "files d1 = files (disk w)" "dirs (disk w) \<subseteq> dirs d1"
      by (auto simp: makedirs_contract_def)
    from assms(2) ok(3)
    have b: "dirs d2 = dirs d1" "\<And>q. q \<noteq> icon_path out folder \<Longrightarrow> files d2 q = files d1 q"
      by (auto simp: save_contract_def)
    from ok Cons.prems have "icons_loop E out img xs wm = (res, w')" by (simp add: x)
    from Cons.IH [OF this] a b ok(6) show ?thesis by (auto simp: x)
  qed
qed

lemma icons_loop_no_convert:
  "icons_loop E out img tbl w = (res, w') \<Longrightarrow>
     filter is_convert (calls w') = filter is_convert (calls w)"
proof (induction tbl arbitrary: w)
  case Nil
  then show ?case by simp
next
  case (Cons x xs)
  obtain folder size_px where x: "x = (folder, size_px)" by (cases x)
  show ?case
  proof (cases rule: icons_loop_Cons_cases
      [where E = E and w = w and out = out and folder = folder and img = img
         and size_px = size_px and rest = xs])
    case (ok d1 r d2 wm)
    with Cons.prems Cons.IH [of wm] show ?thesis by (simp add: x entry_calls_def)
  qed (use Cons.prems in \<open>auto simp: x entry_calls_def\<close>)
qed

lemma icons_loop_success_entries:
  assumes "makedirs_contract E" "save_contract E"
  shows "icons_loop E out img tbl w = (Inr u, w') \<Longrightarrow>
     distinct (map (\<lambda>entry. icon_path out (fst entry)) tbl) \<Longrightarrow>
     (folder, size_px) \<in> set tbl \<Longrightarrow>
     \<exists>r. pil_resize E img (size_px, size_px) LANCZOS = Inr r \<and>
         files (disk w') (icon_path out folder) = Some (pil_encode E ''PNG'' r) \<and>
         os_path_join out folder \<in> dirs (disk w')"
proof (induction tbl arbitrary: w)
  case Nil
  then show ?case by simp
next
  case (Cons x xs)
  obtain folder0 size0 where x: "x = (folder0, size0)" by (cases x)
  show ?case
  proof (cases rule: icons_loop_Cons_cases
      [where E = E and w = w and out = out and folder = folder0 and img = img
         and size_px = size0 and rest = xs])
    case (ok d1 r d2 wm)
    from ok Cons.prems have rest: "icons_loop E out img xs wm = (Inr u, w')" by (simp add: x)
    note frame = icons_loop_frame [OF assms rest]
    show ?thesis
    proof (cases "(folder, size_px) = x")
      case True
      from assms(1) ok(1) have "os_path_join out folder0 \<in> dirs d1"
        by (auto simp: makedirs_contract_def)
      moreover from assms(2) ok(3)
      have "dirs d2 = dirs d1" "files d2 (icon_path out folder0) = Some (pil_encode E ''PNG'' r)"
        by (auto simp: save_contract_def)
      moreover from Cons.prems(2)
      have "icon_path out folder0 \<notin> set (map (\<lambda>entry. icon_path out (fst entry)) xs)"
        by (simp add: x)
      ultimately show ?thesis using frame ok(2,6) True by (auto simp: x)
    next
      case False
      with Cons.prems have "(folder, size_px) \<in> set xs" "distinct (map (\<lambda>entry. icon_path out (fst entry)) xs)"
        by simp_all
      from Cons.IH [OF rest this(2) this(1)] show ?thesis .
    qed
  qed (use Cons.prems in \<open>simp_all add: x\<close>)
qed

lemma written_map_add:
  "written E out img tbl f = f ++ written E out img tbl Map.empty"
proof (induction tbl arbitrary: f)
  case Nil
  show ?case by simp
next
  case (Cons x xs)
  obtain folder size_px where x: "x = (folder, size_px)" by (cases x)
  show ?case
  proof (cases "pil_resize E img (size_px, size_px) LANCZOS")
    case (Inl e)
    then show ?thesis by (simp add: x)
  next
    case (Inr r)
    let ?p = "icon_path out folder" and ?b = "pil_encode E ''PNG'' r"
    let ?W = "written E out img xs Map.empty"
    have step: "written E out img (x # xs) g = written E out img xs (g(?p \<mapsto> ?b))" for g
      by (simp only: x written.simps Inr sum.case)
    have "written E out img (x # xs) f = f(?p \<mapsto> ?b) ++ ?W"
      by (simp only: step) (rule Cons.IH)
    also have "\<dots> = f ++ ([?p \<mapsto> ?b] ++ ?W)"
      by simp
    also have "[?p \<mapsto> ?b] ++ ?W = written E out img (x # xs) Map.empty"
      by (simp only: step) (rule Cons.IH [symmetric])
    finally show ?thesis .
  qed
qed

lemma written_idem:
  "written E out img tbl (written E out img tbl f) = written E out img tbl f"
proof -
  let ?m = "written E out img tbl Map.empty"
  have "written E out img tbl (written E out img tbl f) = (f ++ ?m) ++ ?m"
    by (metis written_map_add)
  also have "\<dots> = f ++ ?m"
    by (rule ext) (simp add: map_add_def split: option.splits)
  also have "\<dots> = written E out img tbl f"
    by (rule written_map_add [symmetric])
  finally show ?thesis .
qed

section \<open>The paths of the table\<close>


lemma icon_path_sizes:
  assumes "(folder, size_px) \<in> set sizes"
  shows "os_path_join out folder = out_prefix out @ folder"
    and "icon_path out folder = out_prefix out @ folder @ ''/ic_launcher.png''"
  using assms
  by (auto simp: sizes_def icon_path_def os_path_join_def out_prefix_def)

lemma distinct_icon_paths:
  "distinct (map (\<lambda>entry. icon_path out (fst entry)) sizes)"
proof -
  have "map (\<lambda>entry. icon_path out (fst entry)) sizes =
      map (\<lambda>entry. out_prefix out @ fst entry @ ''/ic_launcher.png'') sizes"
    by (rule map_cong [OF refl]) (auto simp: icon_path_sizes)
  then show ?thesis by (simp add: sizes_def)
qed

section \<open>The try block\<close>

lemma try_block_open_fails:
  "pil_open E (disk w) src = Inl e \<Longrightarrow>
     try_block E src out w = (Inl e, log_call (Call_open src) w)"
  by (simp add: try_block_def Image_open_def)

lemma try_block_cases:
  assumes "pil_open E (disk w) src = Inr img0"
  obtains
    (loaded_fails) e wf where
      "stdout_error E (stdout w) (''Loaded source image: '' @ src) = Some e"
      "try_block E src out w = (Inl e, wf)"
      "disk wf = disk w" "stdout wf = stdout w"
      "calls wf = calls w @ [Call_open src]"
  | (convert_fails) e wf where
      "stdout_error E (stdout w) (''Loaded source image: '' @ src) = None"
      "mode img0 \<noteq> ''RGBA''" "pil_convert E img0 ''RGBA'' = Inl e"
      "try_block E src out w = (Inl e, wf)"
      "disk wf = disk w"
      "calls wf = calls w @ [Call_open src, Call_convert ''RGBA'']"
  | (loop) img w3 where
      "stdout_error E (stdout w) (''Loaded source image: '' @ src) = None"
      "normalize E img0 = Inr img"
      "disk w3 = disk w"
      "calls w3 = calls w @ Call_open src #
         (if mode img0 \<noteq> ''RGBA'' then [Call_convert ''RGBA''] else [])"
      "stdout w3 = stdout w @ [''Loaded source image: '' @ src]"
      "try_block E src out w =
         (case icons_loop E out img sizes w3 of
            (Inl e, w4) \<Rightarrow> (Inl e, w4)
          | (Inr u, w4) \<Rightarrow>
              (case print E (check_mark @ '' Android icons generated successfully!'') w4 of
                 (Some e, w5) \<Rightarrow> (Inl e, w5)
               | (None, w5) \<Rightarrow> (Inr (), w5)))"
proof -
  let ?w1 = "log_call (Call_open src) w"
  let ?l = "''Loaded source image: '' @ src"
  have o: "Image_open E src w = (Inr img0, ?w1)"
    by (simp add: Image_open_def assms)
  show ?thesis
  proof (cases rule: print_outcome [where E = E and w = ?w1 and l = ?l])
    case (raises e)
    show ?thesis
      by (rule loaded_fails [of e ?w1]) (use raises in \<open>simp_all add: try_block_def o\<close>)
  next
    case prints
    let ?w2 = "?w1\<lparr>stdout := stdout ?w1 @ [?l]\<rparr>"
    from prints have p: "stdout_error E (stdout w) ?l = None" by simp
    show ?thesis
    proof (cases "mode img0 \<noteq> ''RGBA''")
      case False
      show ?thesis
        by (rule loop [of img0 ?w2])
           (use False prints in \<open>simp_all add: normalize_def try_block_def o\<close>)
    next
      case True
      let ?w3 = "log_call (Call_convert ''RGBA'') ?w2"
      show ?thesis
      proof (cases "pil_convert E img0 ''RGBA''")
        case (Inl e)
        show ?thesis
          by (rule convert_fails [of e ?w3])
             (use True Inl prints in \<open>simp_all add: try_block_def o convert_def\<close>)
      next
        case (Inr img)
        show ?thesis
          by (rule loop [of img ?w3])
             (use True Inr prints in \<open>simp_all add: normalize_def try_block_def o convert_def\<close>)
      qed
    qed
  qed
qed

lemma try_block_success:
  assumes "try_block E src out w = (Inr u, w')"
  obtains img0 img w3 w4 where
    "pil_open E (disk w) src = Inr img0"
    "normalize E img0 = Inr img"
    "disk w3 = disk w"
    "calls w3 = calls w @ Call_open src #
       (if mode img0 \<noteq> ''RGBA'' then [Call_convert ''RGBA''] else [])"
    "stdout w3 = stdout w @ [''Loaded source image: '' @ src]"
    "icons_loop E out img sizes w3 = (Inr (), w4)"
    "w' = w4\<lparr>stdout := stdout w4 @ [check_mark @ '' Android icons generated successfully!'']\<rparr>"
proof -
  let ?b = "check_mark @ '' Android icons generated successfully!''"
  from assms obtain img0 where o: "pil_open E (disk w) src = Inr img0"
    by (cases "pil_open E (disk w) src") (simp_all add: try_block_open_fails)
  from o show ?thesis
  proof (cases rule: try_block_cases [where out = out])
    case (loaded_fails e wf)
    with assms show ?thesis by simp
  next
    case (convert_fails e wf)
    with assms show ?thesis by simp
  next
    case (loop img w3)
    obtain r4 w4 where l: "icons_loop E out img sizes w3 = (r4, w4)"
      by (cases "icons_loop E out img sizes w3")
    from loop(6) assms l have r4: "r4 = Inr ()"
      by (cases r4) simp_all
    from loop(6) assms l r4 have w': "w' = w4\<lparr>stdout := stdout w4 @ [?b]\<rparr>"
      by (cases rule: print_outcome [where E = E and w = w4 and l = ?b]) simp_all
    from o loop l r4 w' show ?thesis by (intro that [of img0 img w3 w4]) simp_all
  qed
qed

lemma generate_on_failure:
  "try_block E src out w = (Inl e, w') \<Longrightarrow>
     generate_android_icons E src out w = except_block E e w'"
  by (simp add: generate_android_icons_def)

lemma generate_on_success:
  "try_block E src out w = (Inr u, w') \<Longrightarrow>
     generate_android_icons E src out w = (Inr (), w')"
  by (simp add: generate_android_icons_def)

lemma generate_calls:
  "calls (snd (generate_android_icons E src out w)) = calls (snd (try_block E src out w))"
  "disk (snd (generate_android_icons E src out w)) = disk (snd (try_block E src out w))"
  by (simp_all add: generate_android_icons_def split: prod.splits sum.splits)

lemma except_block_result:
  "except_block E e w =
     (case stdout_error E (stdout w) (cross_mark @ '' Error: '' @ message e) of
        Some e1 \<Rightarrow> (Inl e1, w)
      | None \<Rightarrow>
          (case stdout_error E (stdout w @ [cross_mark @ '' Error: '' @ message e])
                  ''Make sure you have Pillow installed: pip install Pillow'' of
             Some e2 \<Rightarrow> (Inl e2, w\<lparr>stdout := stdout w @ [cross_mark @ '' Error: '' @ message e]\<rparr>)
           | None \<Rightarrow>
               (Inr (),
                w\<lparr>stdout := stdout w @
                   [cross_mark @ '' Error: '' @ message e,
                    ''Make sure you have Pillow installed: pip install Pillow'']\<rparr>)))"
  by (simp add: except_block_def print_def split: option.splits)

lemma demo_contracts:
  "convert_contract demo_env" "resize_contract demo_env"
  "makedirs_contract demo_env" "save_contract demo_env"
  by (auto simp: convert_contract_def resize_contract_def makedirs_contract_def
      save_contract_def demo_env_def)

lemma full_disk_contracts:
  "convert_contract full_disk_env" "resize_contract full_disk_env"
  "makedirs_contract full_disk_env" "save_contract full_disk_env"
  by (auto simp: convert_contract_def resize_contract_def makedirs_contract_def
      save_contract_def demo_env_def full_disk_env_def split: if_splits)

lemmas run_defs =
  try_block_def step_defs sizes_def Let_def os_path_join_def print_def log_call_def
  generated_line_def

section \<open>Failure of one entry, and the calls of the entries\<close>

lemma icons_loop_append:
  "icons_loop E out img (xs @ ys) w =
     (case icons_loop E out img xs w of
        (Inl e, w') \<Rightarrow> (Inl e, w')
      | (Inr u, w') \<Rightarrow> icons_loop E out img ys w')"
  by (induction xs arbitrary: w)
     (auto simp: Let_def split: prod.splits option.splits sum.splits)

lemma entry_failure_cases:
  assumes "icons_loop E out img [(folder, size_px)] w1 = (Inl e, w2)"
  obtains
    (mkdir_fails) d where
      "os_mkdirs E (disk w1) (os_path_join out folder) True = (Some e, d)"
      "disk w2 = d" "stdout w2 = stdout w1"
      "calls w2 = calls w1 @ take 1 (entry_calls out (folder, size_px))"
  | (resize_fails) d1 where
      "os_mkdirs E (disk w1) (os_path_join out folder) True = (None, d1)"
      "pil_resize E img (size_px, size_px) LANCZOS = Inl e"
      "disk w2 = d1" "stdout w2 = stdout w1"
      "calls w2 = calls w1 @ take 2 (entry_calls out (folder, size_px))"
  | (save_fails) d1 r d2 where
      "os_mkdirs E (disk w1) (os_path_join out folder) True = (None, d1)"
      "pil_resize E img (size_px, size_px) LANCZOS = Inr r"
      "pil_save E d1 r (icon_path out folder) ''PNG'' = (Some e, d2)"
      "disk w2 = d2" "stdout w2 = stdout w1"
      "calls w2 = calls w1 @ take 3 (entry_calls out (folder, size_px))"
  | (print_fails) d1 r d2 where
      "os_mkdirs E (disk w1) (os_path_join out folder) True = (None, d1)"
      "pil_resize E img (size_px, size_px) LANCZOS = Inr r"
      "pil_save E d1 r (icon_path out folder) ''PNG'' = (None, d2)"
      "stdout_error E (stdout w1) (generated_line (icon_path out folder) size_px) = Some e"
      "disk w2 = d2" "stdout w2 = stdout w1"
      "calls w2 = calls w1 @ take 3 (entry_calls out (folder, size_px))"
proof (cases rule: icons_loop_Cons_cases
      [where E = E and w = w1 and out = out and folder = folder and img = img
         and size_px = size_px and rest = "[]"])
  case (mkdir_fails e' d wf)
  with assms show ?thesis by (intro that(1) [of d]) (simp_all add: entry_calls_def)
next
  case (resize_fails e' d1 wf)
  with assms show ?thesis by (intro that(2) [of d1]) (simp_all add: entry_calls_def)
next
  case (save_fails e' d1 r d2 wf)
  with assms show ?thesis by (intro that(3) [of d1 r d2]) (simp_all add: entry_calls_def)
next
  case (print_fails e' d1 r d2 wf)
  with assms show ?thesis by (intro that(4) [of d1 r d2]) (simp_all add: entry_calls_def)
next
  case (ok d1 r d2 wm)
  with assms show ?thesis by simp
qed

lemma entry_calls_sizes:
  assumes "entry \<in> set sizes"
  shows "entry_calls out entry =
     [Call_makedirs (out_prefix out @ fst entry) True,
      Call_resize (snd entry, snd entry) LANCZOS,
      Call_save (out_prefix out @ fst entry @ ''/ic_launcher.png'') ''PNG'']"
proof -
  obtain folder size_px where e: "entry = (folder, size_px)" by (cases entry)
  with assms show ?thesis by (simp add: entry_calls_def icon_path_sizes)
qed

lemma sizes_columns_distinct:
  assumes "e1 \<in> set sizes" "e2 \<in> set sizes" "fst e1 = fst e2 \<or> snd e1 = snd e2"
  shows "e1 = e2"
  using assms by (auto simp: sizes_def)

lemma entry_calls_disjoint:
  assumes "e1 \<in> set sizes" "e2 \<in> set sizes"
    and "c \<in> set (entry_calls out e1)" "c \<in> set (entry_calls out e2)"
  shows "e1 = e2"
proof -
  from assms have "fst e1 = fst e2 \<or> snd e1 = snd e2"
    by (auto simp: entry_calls_sizes)
  with assms(1,2) show ?thesis by (rule sizes_columns_distinct)
qed

lemma icons_loop_dirs_unchanged:
  assumes "makedirs_exist_ok E" "save_contract E"
  shows "icons_loop E out img tbl w = (res, w') \<Longrightarrow>
     \<forall>entry \<in> set tbl. os_path_join out (fst entry) \<in> dirs (disk w) \<Longrightarrow>
     dirs (disk w') = dirs (disk w)"
proof (induction tbl arbitrary: w)
  case Nil
  then show ?case by simp
next
  case (Cons x xs)
  obtain folder size_px where x: "x = (folder, size_px)" by (cases x)
  from Cons.prems(2) have p: "os_path_join out folder \<in> dirs (disk w)" by (simp add: x)
  have mk: "dirs d = dirs (disk w)"
    if "os_mkdirs E (disk w) (os_path_join out folder) True = (r, d)" for r d
    using assms(1) p that unfolding makedirs_exist_ok_def by blast
  have sv: "dirs d' = dirs d" if "pil_save E d im q fmt = (r, d')" for d im q fmt r d'
    using assms(2) that unfolding save_contract_def by blast
  show ?case
  proof (cases rule: icons_loop_Cons_cases
      [where E = E and w = w and out = out and folder = folder and img = img
         and size_px = size_px and rest = xs])
    case (mkdir_fails e d wf)
    with Cons.prems(1) mk [OF mkdir_fails(1)] show ?thesis by (simp add: x)
  next
    case (resize_fails e d1 wf)
    with Cons.prems(1) mk [OF resize_fails(1)] show ?thesis by (simp add: x)
  next
    case (save_fails e d1 r d2 wf)
    with Cons.prems(1) mk [OF save_fails(1)] sv [OF save_fails(3)] show ?thesis by (simp add: x)
  next
    case (print_fails e d1 r d2 wf)
    with Cons.prems(1) mk [OF print_fails(1)] sv [OF print_fails(3)] show ?thesis by (simp add: x)
  next
    case (ok d1 r d2 wm)
    from mk [OF ok(1)] sv [OF ok(3)] ok(6) have d: "dirs (disk wm) = dirs (disk w)" by simp
    from ok Cons.prems(1) have "icons_loop E out img xs wm = (res, w')" by (simp add: x)
    from Cons.IH [OF this] Cons.prems(2) d show ?thesis by simp
  qed
qed

section \<open>Runs in the concrete environment\<close>

lemma demo_world_simps:
  "calls (demo_world b) = []" "stdout (demo_world b) = []"
  "dirs (disk (demo_world b)) = {}" "files (disk (demo_world b)) = [source_image \<mapsto> b]"
  by (simp_all add: demo_world_def)

lemma full_disk_run:
  "try_block full_disk_env source_image android_res_dir (demo_world ''RGB'') =
     (Inl (Exception ''[Errno 28] No space left on device''),
      \<lparr>disk = \<lparr>dirs = {''android/app/src/main/res/mipmap-xhdpi'',
                       ''android/app/src/main/res/mipmap-hdpi'',
                       ''android/app/src/main/res/mipmap-mdpi''},
               files = [''assets/images/app_logo.png'' \<mapsto> ''RGB'',
                        ''android/app/src/main/res/mipmap-mdpi/ic_launcher.png'' \<mapsto> ''PNG RGBA 48x48'',
                        ''android/app/src/main/res/mipmap-hdpi/ic_launcher.png'' \<mapsto> ''PNG RGBA 72x72'']\<rparr>,
       stdout = [''Loaded source image: assets/images/app_logo.png'',
                 ''Generated: android/app/src/main/res/mipmap-mdpi/ic_launcher.png (48x48)'',
                 ''Generated: android/app/src/main/res/mipmap-hdpi/ic_launcher.png (72x72)''],
       calls = [Call_open ''assets/images/app_logo.png'', Call_convert ''RGBA'',
                Call_makedirs ''android/app/src/main/res/mipmap-mdpi'' True,
                Call_resize (48, 48) LANCZOS,
                Call_save ''android/app/src/main/res/mipmap-mdpi/ic_launcher.png'' ''PNG'',
                Call_makedirs ''android/app/src/main/res/mipmap-hdpi'' True,
                Call_resize (72, 72) LANCZOS,
                Call_save ''android/app/src/main/res/mipmap-hdpi/ic_launcher.png'' ''PNG'',
                Call_makedirs ''android/app/src/main/res/mipmap-xhdpi'' True,
                Call_resize (96, 96) LANCZOS,
                Call_save ''android/app/src/main/res/mipmap-xhdpi/ic_launcher.png'' ''PNG'']\<rparr>)"
  by (simp add: run_defs demo_defs)


lemma demo_run:
  "try_block demo_env source_image android_res_dir (demo_world ''RGB'') =
     (Inr (),
      \<lparr>disk = \<lparr>dirs = {''android/app/src/main/res/mipmap-xxxhdpi'',
                       ''android/app/src/main/res/mipmap-xxhdpi'',
                       ''android/app/src/main/res/mipmap-xhdpi'',
                       ''android/app/src/main/res/mipmap-hdpi'',
                       ''android/app/src/main/res/mipmap-mdpi''},
               files = [''assets/images/app_logo.png'' \<mapsto> ''RGB'',
                        ''android/app/src/main/res/mipmap-mdpi/ic_launcher.png'' \<mapsto> ''PNG RGBA 48x48'',
                        ''android/app/src/main/res/mipmap-hdpi/ic_launcher.png'' \<mapsto> ''PNG RGBA 72x72'',
                        ''android/app/src/main/res/mipmap-xhdpi/ic_launcher.png'' \<mapsto> ''PNG RGBA 96x96'',
                        ''android/app/src/main/res/mipmap-xxhdpi/ic_launcher.png'' \<mapsto> ''PNG RGBA 144x144'',
                        ''android/app/src/main/res/mipmap-xxxhdpi/ic_launcher.png'' \<mapsto> ''PNG RGBA 192x192'']\<rparr>,
       stdout = [''Loaded source image: assets/images/app_logo.png'',
                 ''Generated: android/app/src/main/res/mipmap-mdpi/ic_launcher.png (48x48)'',
                 ''Generated: android/app/src/main/res/mipmap-hdpi/ic_launcher.png (72x72)'',
                 ''Generated: android/app/src/main/res/mipmap-xhdpi/ic_launcher.png (96x96)'',
                 ''Generated: android/app/src/main/res/mipmap-xxhdpi/ic_launcher.png (144x144)'',
                 ''Generated: android/app/src/main/res/mipmap-xxxhdpi/ic_launcher.png (192x192)'',
                 check_mark @ '' Android icons generated successfully!''],
       calls = [Call_open ''assets/images/app_logo.png'', Call_convert ''RGBA'',
                Call_makedirs ''android/app/src/main/res/mipmap-mdpi'' True,
                Call_resize (48, 48) LANCZOS,
                Call_save ''android/app/src/main/res/mipmap-mdpi/ic_launcher.png'' ''PNG'',
                Call_makedirs ''android/app/src/main/res/mipmap-hdpi'' True,
                Call_resize (72, 72) LANCZOS,
                Call_save ''android/app/src/main/res/mipmap-hdpi/ic_launcher.png'' ''PNG'',
                Call_makedirs ''android/app/src/main/res/mipmap-xhdpi'' True,
                Call_resize (96, 96) LANCZOS,
                Call_save ''android/app/src/main/res/mipmap-xhdpi/ic_launcher.png'' ''PNG'',
                Call_makedirs ''android/app/src/main/res/mipmap-xxhdpi'' True,
                Call_resize (144, 144) LANCZOS,
                Call_save ''android/app/src/main/res/mipmap-xxhdpi/ic_launcher.png'' ''PNG'',
                Call_makedirs ''android/app/src/main/res/mipmap-xxxhdpi'' True,
                Call_resize (192, 192) LANCZOS,
                Call_save ''android/app/src/main/res/mipmap-xxxhdpi/ic_launcher.png'' ''PNG'']\<rparr>)"
  by (simp add: run_defs demo_defs)

lemma LA_run_calls:
  "calls (snd (try_block demo_env source_image android_res_dir (demo_world ''LA''))) =
     [Call_open ''assets/images/app_logo.png'', Call_convert ''RGBA'',
      Call_makedirs ''android/app/src/main/res/mipmap-mdpi'' True,
      Call_resize (48, 48) LANCZOS,
      Call_save ''android/app/src/main/res/mipmap-mdpi/ic_launcher.png'' ''PNG'',
      Call_makedirs ''android/app/src/main/res/mipmap-hdpi'' True,
      Call_resize (72, 72) LANCZOS,
      Call_save ''android/app/src/main/res/mipmap-hdpi/ic_launcher.png'' ''PNG'',
      Call_makedirs ''android/app/src/main/res/mipmap-xhdpi'' True,
      Call_resize (96, 96) LANCZOS,
      Call_save ''android/app/src/main/res/mipmap-xhdpi/ic_launcher.png'' ''PNG'',
      Call_makedirs ''android/app/src/main/res/mipmap-xxhdpi'' True,
      Call_resize (144, 144) LANCZOS,
      Call_save ''android/app/src/main/res/mipmap-xxhdpi/ic_launcher.png'' ''PNG'',
      Call_makedirs ''android/app/src/main/res/mipmap-xxxhdpi'' True,
      Call_resize (192, 192) LANCZOS,
      Call_save ''android/app/src/main/res/mipmap-xxxhdpi/ic_launcher.png'' ''PNG'']"
  by (simp add: run_defs demo_defs)


lemma demo_exist_ok: "makedirs_exist_ok demo_env"
  by (auto simp: makedirs_exist_ok_def demo_env_def)

lemmas loop_defs =
  step_defs sizes_def Let_def os_path_join_def print_def log_call_def generated_line_def

lemma sizes_split:
  "sizes = take 2 sizes @ (''mipmap-xhdpi'', 96) # drop 3 sizes"
  by (simp add: sizes_def)

lemma full_disk_pre:
  "fst (icons_loop full_disk_env android_res_dir demo_img (take 2 sizes) (demo_world ''RGB'')) =
     Inr ()"
  by (simp add: loop_defs demo_defs demo_img_def)

lemma full_disk_entry:
  "icons_loop full_disk_env android_res_dir demo_img [(''mipmap-xhdpi'', 96)]
     (snd (icons_loop full_disk_env android_res_dir demo_img (take 2 sizes) (demo_world ''RGB''))) =
   (Inl (Exception ''[Errno 28] No space left on device''),
    \<lparr>disk = \<lparr>dirs = {''android/app/src/main/res/mipmap-xhdpi'',
                     ''android/app/src/main/res/mipmap-hdpi'',
                     ''android/app/src/main/res/mipmap-mdpi''},
             files = [''assets/images/app_logo.png'' \<mapsto> ''RGB'',
                      ''android/app/src/main/res/mipmap-mdpi/ic_launcher.png'' \<mapsto> ''PNG RGBA 48x48'',
                      ''android/app/src/main/res/mipmap-hdpi/ic_launcher.png'' \<mapsto> ''PNG RGBA 72x72'']\<rparr>,
     stdout = [''Generated: android/app/src/main/res/mipmap-mdpi/ic_launcher.png (48x48)'',
               ''Generated: android/app/src/main/res/mipmap-hdpi/ic_launcher.png (72x72)''],
     calls = [Call_makedirs ''android/app/src/main/res/mipmap-mdpi'' True,
              Call_resize (48, 48) LANCZOS,
              Call_save ''android/app/src/main/res/mipmap-mdpi/ic_launcher.png'' ''PNG'',
              Call_makedirs ''android/app/src/main/res/mipmap-hdpi'' True,
              Call_resize (72, 72) LANCZOS,
              Call_save ''android/app/src/main/res/mipmap-hdpi/ic_launcher.png'' ''PNG'',
              Call_makedirs ''android/app/src/main/res/mipmap-xhdpi'' True,
              Call_resize (96, 96) LANCZOS,
              Call_save ''android/app/src/main/res/mipmap-xhdpi/ic_launcher.png'' ''PNG'']\<rparr>)"
  by (simp add: loop_defs demo_defs demo_img_def)

lemma once_eq:
  "try_block demo_env source_image android_res_dir (demo_world ''RGB'') = (Inr (), once)"
  by (simp add: once_def demo_run)

lemma once_disk:
  "disk once =
     \<lparr>dirs = {''android/app/src/main/res/mipmap-xxxhdpi'',
              ''android/app/src/main/res/mipmap-xxhdpi'',
              ''android/app/src/main/res/mipmap-xhdpi'',
              ''android/app/src/main/res/mipmap-hdpi'',
              ''android/app/src/main/res/mipmap-mdpi''},
      files = [''assets/images/app_logo.png'' \<mapsto> ''RGB'',
               ''android/app/src/main/res/mipmap-mdpi/ic_launcher.png'' \<mapsto> ''PNG RGBA 48x48'',
               ''android/app/src/main/res/mipmap-hdpi/ic_launcher.png'' \<mapsto> ''PNG RGBA 72x72'',
               ''android/app/src/main/res/mipmap-xhdpi/ic_launcher.png'' \<mapsto> ''PNG RGBA 96x96'',
               ''android/app/src/main/res/mipmap-xxhdpi/ic_launcher.png'' \<mapsto> ''PNG RGBA 144x144'',
               ''android/app/src/main/res/mipmap-xxxhdpi/ic_launcher.png'' \<mapsto> ''PNG RGBA 192x192'']\<rparr>"
  by (simp add: once_def demo_run)

lemma twice_ok:
  "fst (try_block demo_env source_image android_res_dir once) = Inr ()"
proof -
  have "once = snd (Inr () :: exn + unit, once)" by simp
  also note once_eq [symmetric]
  finally have o: "once = snd (try_block demo_env source_image android_res_dir (demo_world ''RGB''))" .
  show ?thesis
    by (subst o, simp only: demo_run snd_conv) (simp add: run_defs demo_defs)
qed


lemma truncated_contracts:
  "makedirs_contract truncated_env"
  by (auto simp: makedirs_contract_def demo_env_def truncated_env_def)

lemma truncated_RGBA_run:
  "try_block truncated_env source_image android_res_dir (demo_world ''RGBA'') =
     (Inl (Exception ''image file is truncated''),
      \<lparr>disk = \<lparr>dirs = {''android/app/src/main/res/mipmap-mdpi''},
               files = [''assets/images/app_logo.png'' \<mapsto> ''RGBA'']\<rparr>,
       stdout = [''Loaded source image: assets/images/app_logo.png''],
       calls = [Call_open ''assets/images/app_logo.png'',
                Call_makedirs ''android/app/src/main/res/mipmap-mdpi'' True,
                Call_resize (48, 48) LANCZOS]\<rparr>)"
  by (simp add: run_defs demo_defs truncated_env_def)

lemma ascii_prints:
  "stdout_error ascii_env printed (cross_mark @ l) =
     Some (Exception ''UnicodeEncodeError: ascii codec cannot encode character'')"
  "stdout_error ascii_env printed (check_mark @ l) =
     Some (Exception ''UnicodeEncodeError: ascii codec cannot encode character'')"
  by (simp_all add: ascii_env_def demo_env_def non_ascii_def cross_mark_def check_mark_def)

lemma ascii_run:
  "fst (try_block ascii_env source_image android_res_dir (demo_world ''RGB'')) =
     Inl (Exception ''UnicodeEncodeError: ascii codec cannot encode character'')"
  by (simp add: run_defs demo_defs ascii_env_def non_ascii_def check_mark_def)

section \<open>Which exceptions leave the function\<close>

text \<open>
  C9 as stated fails: the handler prints, and \<open>print\<close> can raise. On a standard output
  in ASCII the success line of a complete run raises inside the \<open>try\<close> block, the
  handler's error line raises in turn, and that exception leaves the function; the
  script then ends with exit status 1, as it does when the source is missing and the
  \<open>not found\<close> line cannot be printed.
\<close>

theorem print_failure_leaves_function:
  "fst (generate_android_icons ascii_env source_image android_res_dir (demo_world ''RGB'')) =
     Inl (Exception ''UnicodeEncodeError: ascii codec cannot encode character'') \<and>
   exit_status (fst (main ascii_env (demo_world ''RGB''))) = 1 \<and>
   exit_status (fst (main ascii_env empty_world)) = 1"
proof -
  let ?u = "Exception ''UnicodeEncodeError: ascii codec cannot encode character''"
  let ?t = "try_block ascii_env source_image android_res_dir (demo_world ''RGB'')"
  have t: "?t = (Inl ?u, snd ?t)"
    using ascii_run by (cases ?t) simp
  have g: "fst (generate_android_icons ascii_env source_image android_res_dir
      (demo_world ''RGB'')) = Inl ?u"
    by (simp add: generate_on_failure [OF t] except_block_result ascii_prints)
  have e: "path_exists ascii_env (disk (demo_world ''RGB'')) source_image"
    by (simp add: demo_defs ascii_env_def)
  have t': "try_block ascii_env source_image android_res_dir
      (log_call (Call_exists source_image) (demo_world ''RGB'')) =
      (Inl ?u, snd (try_block ascii_env source_image android_res_dir
        (log_call (Call_exists source_image) (demo_world ''RGB''))))"
    by (simp add: run_defs demo_defs ascii_env_def non_ascii_def check_mark_def)
  have m1: "fst (main ascii_env (demo_world ''RGB'')) = Inl ?u"
    by (simp add: main_def os_path_exists_def e generate_on_failure [OF t']
        except_block_result ascii_prints)
  have n: "\<not> path_exists ascii_env (disk empty_world) source_image"
    by (simp add: demo_defs ascii_env_def)
  have m2: "fst (main ascii_env empty_world) = Inl ?u"
    by (simp add: main_def os_path_exists_def n print_def ascii_prints)
  from g m1 m2 show ?thesis by (simp add: exit_status_def)
qed

text \<open>
  C9 (as amended). Whatever a statement of the \<open>try\<close> block raises -- the decoding, the
  conversion, the creation of a directory, the resizing, the saving -- reaches the one
  handler. The function returns \<open>None\<close> unless one of the two prints of the handler
  raises; that exception is the only one that can leave the function. On a standard
  output that takes every text nothing leaves it: the function returns \<open>None\<close> and the
  script ends with exit status 0 whatever happened, so that neither tells a success from
  a failure.
\<close>

theorem only_the_handler_prints_can_raise:
  "(try_block E source_path output_dir w = (Inl e, w') \<longrightarrow>
      generate_android_icons E source_path output_dir w = except_block E e w' \<and>
      (stdout_error E (stdout w') (cross_mark @ '' Error: '' @ message e) = None \<and>
       stdout_error E (stdout w' @ [cross_mark @ '' Error: '' @ message e])
         ''Make sure you have Pillow installed: pip install Pillow'' = None \<longrightarrow>
         fst (generate_android_icons E source_path output_dir w) = Inr ())) \<and>
   (fst (generate_android_icons E source_path output_dir w) = Inl e' \<longrightarrow>
      (\<exists>e0 w0. try_block E source_path output_dir w = (Inl e0, w0) \<and>
         (stdout_error E (stdout w0) (cross_mark @ '' Error: '' @ message e0) = Some e' \<or>
          stdout_error E (stdout w0 @ [cross_mark @ '' Error: '' @ message e0])
            ''Make sure you have Pillow installed: pip install Pillow'' = Some e'))) \<and>
   ((\<forall>printed line. stdout_error E printed line = None) \<longrightarrow>
      fst (generate_android_icons E source_path output_dir w) = Inr () \<and>
      fst (main E w) = Inr () \<and>
      exit_status (fst (main E w)) = 0)"
proof -
  have caught: "generate_android_icons E source_path output_dir w = except_block E e w' \<and>
      (stdout_error E (stdout w') (cross_mark @ '' Error: '' @ message e) = None \<and>
       stdout_error E (stdout w' @ [cross_mark @ '' Error: '' @ message e])
         ''Make sure you have Pillow installed: pip install Pillow'' = None \<longrightarrow>
         fst (generate_android_icons E source_path output_dir w) = Inr ())"
    if "try_block E source_path output_dir w = (Inl e, w')"
    by (simp add: generate_on_failure [OF that] except_block_result)
  have leaves: "\<exists>e0 w0. try_block E s out v = (Inl e0, w0) \<and>
         (stdout_error E (stdout w0) (cross_mark @ '' Error: '' @ message e0) = Some x \<or>
          stdout_error E (stdout w0 @ [cross_mark @ '' Error: '' @ message e0])
            ''Make sure you have Pillow installed: pip install Pillow'' = Some x)"
    if g: "fst (generate_android_icons E s out v) = Inl x" for s out v x
  proof -
    obtain r w0 where t: "try_block E s out v = (r, w0)"
      by (cases "try_block E s out v")
    show ?thesis
    proof (cases r)
      case (Inr u)
      with t g show ?thesis by (simp add: generate_android_icons_def)
    next
      case (Inl e0)
      with t g have "fst (except_block E e0 w0) = Inl x"
        by (simp add: generate_android_icons_def)
      then have "stdout_error E (stdout w0) (cross_mark @ '' Error: '' @ message e0) = Some x \<or>
          stdout_error E (stdout w0 @ [cross_mark @ '' Error: '' @ message e0])
            ''Make sure you have Pillow installed: pip install Pillow'' = Some x"
        by (auto simp: except_block_result split: option.splits)
      with t Inl show ?thesis by blast
    qed
  qed
  have quiet: "fst (generate_android_icons E source_path output_dir w) = Inr () \<and>
      fst (main E w) = Inr () \<and> exit_status (fst (main E w)) = 0"
    if p: "\<forall>printed line. stdout_error E printed line = None"
  proof -
    have gen: "fst (generate_android_icons E s out v) = Inr ()" for s out v
    proof (cases "fst (generate_android_icons E s out v)")
      case (Inl e1)
      from leaves [OF this] p show ?thesis by auto
    next
      case (Inr u)
      then show ?thesis by simp
    qed
    have "fst (main E w) = Inr ()"
      by (simp add: main_def os_path_exists_def gen print_def p split: bool.splits)
    with gen show ?thesis by (simp add: exit_status_def)
  qed
  from caught leaves quiet show ?thesis by blast
qed

theorem only_the_handler_prints_witness:
  "(\<forall>printed line. stdout_error full_disk_env printed line = None) \<and>
   fst (try_block full_disk_env source_image android_res_dir (demo_world ''RGB'')) =
     Inl (Exception ''[Errno 28] No space left on device'') \<and>
   fst (generate_android_icons full_disk_env source_image android_res_dir (demo_world ''RGB'')) =
     Inr () \<and>
   fst (main full_disk_env (demo_world ''RGB'')) = Inr () \<and>
   exit_status (fst (main full_disk_env (demo_world ''RGB''))) = 0"
proof -
  have p: "\<forall>printed line. stdout_error full_disk_env printed line = None"
    by (simp add: demo_defs)
  note inst = only_the_handler_prints_can_raise
    [where E = full_disk_env and source_path = source_image and output_dir = android_res_dir
       and w = "demo_world ''RGB''"]
  from inst p have "fst (generate_android_icons full_disk_env source_image android_res_dir
      (demo_world ''RGB'')) = Inr () \<and>
    fst (main full_disk_env (demo_world ''RGB'')) = Inr () \<and>
    exit_status (fst (main full_disk_env (demo_world ''RGB''))) = 0"
    by blast
  moreover have "fst (try_block full_disk_env source_image android_res_dir (demo_world ''RGB'')) =
     Inl (Exception ''[Errno 28] No space left on device'')"
    by (simp add: full_disk_run)
  ultimately show ?thesis using p by blast
qed

section \<open>A missing source\<close>

text \<open>
  C3. When \<open>os.path.exists\<close> says that the source image is not there, the script
  prints the two lines of its \<open>else\<close> branch and ends. The existence test is the only
  external call it makes: nothing is decoded, the file system is as it was, whether the
  lines can be printed or not. When they can, the script ends after printing them; when
  the first cannot, the exception of \<open>print\<close> ends it.
\<close>

theorem source_not_found_no_side_effects:
  assumes "\<not> path_exists E (disk w) source_image"
  shows "disk (snd (main E w)) = disk w \<and>
    calls (snd (main E w)) = calls w @ [Call_exists source_image] \<and>
    (stdout_error E (stdout w)
       (cross_mark @ '' Source image not found: assets/images/app_logo.png'') = None \<and>
     stdout_error E
       (stdout w @ [cross_mark @ '' Source image not found: assets/images/app_logo.png''])
       ''Please save your logo image as assets/images/app_logo.png'' = None \<longrightarrow>
       fst (main E w) = Inr () \<and>
       stdout (snd (main E w)) =
         stdout w @
           [cross_mark @ '' Source image not found: assets/images/app_logo.png'',
            ''Please save your logo image as assets/images/app_logo.png'']) \<and>
    (stdout_error E (stdout w)
       (cross_mark @ '' Source image not found: assets/images/app_logo.png'') = Some e \<longrightarrow>
       fst (main E w) = Inl e \<and> stdout (snd (main E w)) = stdout w)"
  using assms
  by (simp add: main_def os_path_exists_def source_image_def print_def split: option.splits)

theorem source_not_found_witness:
  "\<not> path_exists demo_env (disk empty_world) source_image \<and>
   fst (main demo_env empty_world) = Inr () \<and>
   disk (snd (main demo_env empty_world)) = disk empty_world \<and>
   calls (snd (main demo_env empty_world)) = [Call_exists ''assets/images/app_logo.png''] \<and>
   stdout (snd (main demo_env empty_world)) =
     [cross_mark @ '' Source image not found: assets/images/app_logo.png'',
      ''Please save your logo image as assets/images/app_logo.png'']"
proof -
  have h: "\<not> path_exists demo_env (disk empty_world) source_image"
    by (simp add: demo_defs)
  have p: "stdout_error demo_env printed line = None" for printed line
    by (simp add: demo_env_def)
  from source_not_found_no_side_effects [OF h] h p show ?thesis
    by (simp add: empty_world_def source_image_def)
qed

section \<open>A source that does not decode\<close>

text \<open>
  C6 as stated fails: Pillow reads the pixel data when they are first needed, and for a
  source already in mode \<open>RGBA\<close> that is the first \<open>resize\<close>, inside the loop, after
  the directory of the first entry has been made. In the run below the source exists
  and opens, its pixel data are cut short, the \<open>try\<close> block ends with the decoding
  error, and \<open>mipmap-mdpi\<close> has been created on a disk that had no directory.
\<close>

theorem deferred_decode_failure_makes_directory:
  "path_exists truncated_env (disk (demo_world ''RGBA'')) source_image \<and>
   pil_open truncated_env (disk (demo_world ''RGBA'')) source_image =
     Inr \<lparr>mode = ''RGBA'', imsize = (512, 512), pixels = ''RGBA''\<rparr> \<and>
   fst (try_block truncated_env source_image android_res_dir (demo_world ''RGBA'')) =
     Inl (Exception ''image file is truncated'') \<and>
   dirs (disk (demo_world ''RGBA'')) = {} \<and>
   dirs (disk (snd (generate_android_icons truncated_env source_image android_res_dir
     (demo_world ''RGBA'')))) = {''android/app/src/main/res/mipmap-mdpi''}"
  by (simp add: generate_calls truncated_RGBA_run demo_world_simps)
     (simp add: demo_defs truncated_env_def)

text \<open>
  C6 (as amended). When \<open>Image.open\<close> raises, it is the only external call of the run:
  it stands before the loop, so no directory is made and no file is written, the file
  system is as it was, and the handler reports the cause (the error line with the text
  of the exception, then the Pillow hint, when standard output takes them). The file
  system is also as it was when the source opens in a mode other than \<open>RGBA\<close> and the
  conversion raises, which is where a decoding error that Pillow deferred shows for such
  a source. For a source that opens in mode \<open>RGBA\<close> and whose first \<open>resize\<close>
  raises, no file is written or changed (given that \<open>makedirs\<close> touches no file), but
  the directory of the first entry may have been made.
\<close>

theorem decode_failure_writes_no_file:
  "(pil_open E (disk w) source_path = Inl e \<longrightarrow>
      generate_android_icons E source_path output_dir w =
        except_block E e (log_call (Call_open source_path) w) \<and>
      disk (snd (generate_android_icons E source_path output_dir w)) = disk w \<and>
      calls (snd (generate_android_icons E source_path output_dir w)) =
        calls w @ [Call_open source_path] \<and>
      (stdout_error E (stdout w) (cross_mark @ '' Error: '' @ message e) = None \<and>
       stdout_error E (stdout w @ [cross_mark @ '' Error: '' @ message e])
         ''Make sure you have Pillow installed: pip install Pillow'' = None \<longrightarrow>
         fst (generate_android_icons E source_path output_dir w) = Inr () \<and>
         stdout (snd (generate_android_icons E source_path output_dir w)) =
           stdout w @ [cross_mark @ '' Error: '' @ message e,
                       ''Make sure you have Pillow installed: pip install Pillow''])) \<and>
   (pil_open E (disk w) source_path = Inr source_img \<and> mode source_img \<noteq> ''RGBA'' \<and>
    pil_convert E source_img ''RGBA'' = Inl e \<longrightarrow>
      disk (snd (generate_android_icons E source_path output_dir w)) = disk w) \<and>
   (makedirs_contract E \<and>
    pil_open E (disk w) source_path = Inr source_img \<and> mode source_img = ''RGBA'' \<and>
    pil_resize E source_img (48, 48) LANCZOS = Inl e \<longrightarrow>
      files (disk (snd (generate_android_icons E source_path output_dir w))) = files (disk w))"
proof (intro conjI impI)
  assume o: "pil_open E (disk w) source_path = Inl e"
  note t = try_block_open_fails [OF o, of output_dir]
  show g: "generate_android_icons E source_path output_dir w =
        except_block E e (log_call (Call_open source_path) w)"
    by (rule generate_on_failure [OF t])
  show "disk (snd (generate_android_icons E source_path output_dir w)) = disk w"
    by (simp add: g)
  show "calls (snd (generate_android_icons E source_path output_dir w)) =
        calls w @ [Call_open source_path]"
    by (simp add: g)
  assume p: "stdout_error E (stdout w) (cross_mark @ '' Error: '' @ message e) = None \<and>
       stdout_error E (stdout w @ [cross_mark @ '' Error: '' @ message e])
         ''Make sure you have Pillow installed: pip install Pillow'' = None"
  from p show "fst (generate_android_icons E source_path output_dir w) = Inr ()"
    by (simp add: g except_block_result)
  from p show "stdout (snd (generate_android_icons E source_path output_dir w)) =
           stdout w @ [cross_mark @ '' Error: '' @ message e,
                       ''Make sure you have Pillow installed: pip install Pillow'']"
    by (simp add: g except_block_result)
next
  assume a: "pil_open E (disk w) source_path = Inr source_img \<and> mode source_img \<noteq> ''RGBA'' \<and>
    pil_convert E source_img ''RGBA'' = Inl e"
  then have o: "pil_open E (disk w) source_path = Inr source_img" by simp
  from o show "disk (snd (generate_android_icons E source_path output_dir w)) = disk w"
  proof (cases rule: try_block_cases [where out = output_dir])
    case (loaded_fails e1 wf)
    then show ?thesis by (simp add: generate_calls)
  next
    case (convert_fails e1 wf)
    then show ?thesis by (simp add: generate_calls)
  next
    case (loop img w3)
    with a show ?thesis by (simp add: normalize_def)
  qed
next
  assume a: "makedirs_contract E \<and>
    pil_open E (disk w) source_path = Inr source_img \<and> mode source_img = ''RGBA'' \<and>
    pil_resize E source_img (48, 48) LANCZOS = Inl e"
  then have o: "pil_open E (disk w) source_path = Inr source_img" by simp
  from o show "files (disk (snd (generate_android_icons E source_path output_dir w))) =
      files (disk w)"
  proof (cases rule: try_block_cases [where out = output_dir])
    case (loaded_fails e1 wf)
    then show ?thesis by (simp add: generate_calls)
  next
    case (convert_fails e1 wf)
    with a show ?thesis by simp
  next
    case (loop img w3)
    from loop(2) a have img: "img = source_img" by (simp add: normalize_def)
    let ?rest = "[(''mipmap-hdpi'', 72), (''mipmap-xhdpi'', 96), (''mipmap-xxhdpi'', 144),
      (''mipmap-xxxhdpi'', 192)]"
    have s: "sizes = (''mipmap-mdpi'', 48) # ?rest" by (simp add: sizes_def)
    have mk: "files d = files (disk w)"
      if "os_mkdirs E (disk w3) (os_path_join output_dir ''mipmap-mdpi'') True = (r, d)" for r d
      using a that loop(3) unfolding makedirs_contract_def by metis
    have "\<exists>e1 wf. icons_loop E output_dir img ((''mipmap-mdpi'', 48) # ?rest) w3 = (Inl e1, wf) \<and>
        files (disk wf) = files (disk w)"
    proof (cases rule: icons_loop_Cons_cases
        [where E = E and w = w3 and out = output_dir and folder = "''mipmap-mdpi''"
           and img = img and size_px = 48 and rest = ?rest])
      case (mkdir_fails e1 d wf)
      from mk [OF mkdir_fails(1)] mkdir_fails(3) have "files (disk wf) = files (disk w)"
        by simp
      with mkdir_fails(2) show ?thesis by blast
    next
      case (resize_fails e1 d1 wf)
      from mk [OF resize_fails(1)] resize_fails(4) have "files (disk wf) = files (disk w)"
        by simp
      with resize_fails(3) show ?thesis by blast
    next
      case (save_fails e1 d1 r d2 wf)
      with a img show ?thesis by simp
    next
      case (print_fails e1 d1 r d2 wf)
      with a img show ?thesis by simp
    next
      case (ok d1 r d2 wm)
      with a img show ?thesis by simp
    qed
    then obtain e1 wf where "icons_loop E output_dir img sizes w3 = (Inl e1, wf)"
      "files (disk wf) = files (disk w)" unfolding s by blast
    with loop(6) show ?thesis by (simp add: generate_calls)
  qed
qed

theorem decode_failure_witness:
  "path_exists demo_env (disk (demo_world ''hello, world'')) source_image \<and>
   pil_open demo_env (disk (demo_world ''hello, world'')) source_image =
     Inl (Exception ''cannot identify image file'') \<and>
   fst (generate_android_icons demo_env source_image android_res_dir
          (demo_world ''hello, world'')) = Inr () \<and>
   disk (snd (generate_android_icons demo_env source_image android_res_dir
          (demo_world ''hello, world''))) = disk (demo_world ''hello, world'') \<and>
   calls (snd (generate_android_icons demo_env source_image android_res_dir
          (demo_world ''hello, world''))) = [Call_open ''assets/images/app_logo.png''] \<and>
   stdout (snd (generate_android_icons demo_env source_image android_res_dir
          (demo_world ''hello, world''))) =
     [cross_mark @ '' Error: cannot identify image file'',
      ''Make sure you have Pillow installed: pip install Pillow''] \<and>
   pil_open truncated_env (disk (demo_world ''RGB'')) source_image =
     Inr \<lparr>mode = ''RGB'', imsize = (512, 512), pixels = ''RGB''\<rparr> \<and>
   pil_convert truncated_env \<lparr>mode = ''RGB'', imsize = (512, 512), pixels = ''RGB''\<rparr> ''RGBA'' =
     Inl (Exception ''image file is truncated'') \<and>
   disk (snd (generate_android_icons truncated_env source_image android_res_dir
          (demo_world ''RGB''))) = disk (demo_world ''RGB'') \<and>
   makedirs_contract truncated_env \<and>
   pil_open truncated_env (disk (demo_world ''RGBA'')) source_image =
     Inr \<lparr>mode = ''RGBA'', imsize = (512, 512), pixels = ''RGBA''\<rparr> \<and>
   pil_resize truncated_env \<lparr>mode = ''RGBA'', imsize = (512, 512), pixels = ''RGBA''\<rparr>
     (48, 48) LANCZOS = Inl (Exception ''image file is truncated'') \<and>
   files (disk (snd (generate_android_icons truncated_env source_image android_res_dir
          (demo_world ''RGBA'')))) = files (disk (demo_world ''RGBA''))"
proof -
  have e: "path_exists demo_env (disk (demo_world ''hello, world'')) source_image"
    by (simp add: demo_defs)
  have h: "pil_open demo_env (disk (demo_world ''hello, world'')) source_image =
      Inl (Exception ''cannot identify image file'')"
    by (simp add: demo_defs)
  have p: "stdout_error demo_env printed line = None" for printed line
    by (simp add: demo_env_def)
  note i1 = decode_failure_writes_no_file
    [where E = demo_env and w = "demo_world ''hello, world''" and source_path = source_image
       and output_dir = android_res_dir and e = "Exception ''cannot identify image file''"]
  note a1 = i1 [THEN conjunct1, THEN mp, OF h]
  from a1 p
  have c1: "fst (generate_android_icons demo_env source_image android_res_dir
          (demo_world ''hello, world'')) = Inr ()"
    "disk (snd (generate_android_icons demo_env source_image android_res_dir
          (demo_world ''hello, world''))) = disk (demo_world ''hello, world'')"
    "calls (snd (generate_android_icons demo_env source_image android_res_dir
          (demo_world ''hello, world''))) = [Call_open ''assets/images/app_logo.png'']"
    "stdout (snd (generate_android_icons demo_env source_image android_res_dir
          (demo_world ''hello, world''))) =
     [cross_mark @ '' Error: cannot identify image file'',
      ''Make sure you have Pillow installed: pip install Pillow'']"
    by (simp_all add: demo_world_simps source_image_def except_block_result)
  have o2: "pil_open truncated_env (disk (demo_world ''RGB'')) source_image =
     Inr \<lparr>mode = ''RGB'', imsize = (512, 512), pixels = ''RGB''\<rparr>"
    by (simp add: demo_defs truncated_env_def)
  have v2: "pil_convert truncated_env \<lparr>mode = ''RGB'', imsize = (512, 512), pixels = ''RGB''\<rparr>
      ''RGBA'' = Inl (Exception ''image file is truncated'')"
    by (simp add: demo_defs truncated_env_def)
  note i2 = decode_failure_writes_no_file
    [where E = truncated_env and w = "demo_world ''RGB''" and source_path = source_image
       and output_dir = android_res_dir and e = "Exception ''image file is truncated''"
       and source_img = "\<lparr>mode = ''RGB'', imsize = (512, 512), pixels = ''RGB''\<rparr>"]
  from i2 o2 v2
  have c2: "disk (snd (generate_android_icons truncated_env source_image android_res_dir
          (demo_world ''RGB''))) = disk (demo_world ''RGB'')"
    by simp
  have o3: "pil_open truncated_env (disk (demo_world ''RGBA'')) source_image =
     Inr \<lparr>mode = ''RGBA'', imsize = (512, 512), pixels = ''RGBA''\<rparr>"
    by (simp add: demo_defs truncated_env_def)
  have v3: "pil_resize truncated_env \<lparr>mode = ''RGBA'', imsize = (512, 512), pixels = ''RGBA''\<rparr>
     (48, 48) LANCZOS = Inl (Exception ''image file is truncated'')"
    by (simp add: demo_defs truncated_env_def)
  note i3 = decode_failure_writes_no_file
    [where E = truncated_env and w = "demo_world ''RGBA''" and source_path = source_image
       and output_dir = android_res_dir and e = "Exception ''image file is truncated''"
       and source_img = "\<lparr>mode = ''RGBA'', imsize = (512, 512), pixels = ''RGBA''\<rparr>"]
  from i3 o3 v3 truncated_contracts
  have c3: "files (disk (snd (generate_android_icons truncated_env source_image android_res_dir
          (demo_world ''RGBA'')))) = files (disk (demo_world ''RGBA''))"
    by simp
  from e h c1 o2 v2 c2 truncated_contracts o3 v3 c3 show ?thesis by blast
qed

section \<open>What the error report says\<close>




section \<open>Normalisation to RGBA\<close>

text \<open>
  C7 as stated fails: the test of the script is on the mode being \<open>RGBA\<close>, not on the
  presence of an alpha band. A source in mode \<open>LA\<close> (grey with alpha) has an alpha
  band and is converted all the same.
\<close>

theorem alpha_image_is_converted:
  "pil_open demo_env (disk (demo_world ''LA'')) source_image =
     Inr \<lparr>mode = ''LA'', imsize = (512, 512), pixels = ''LA''\<rparr> \<and>
   has_alpha \<lparr>mode = ''LA'', imsize = (512, 512), pixels = ''LA''\<rparr> \<and>
   take 2 (calls (snd (generate_android_icons demo_env source_image android_res_dir
     (demo_world ''LA'')))) =
     [Call_open ''assets/images/app_logo.png'', Call_convert ''RGBA'']"
  by (simp add: generate_calls LA_run_calls)
     (simp add: demo_defs has_alpha_def alpha_modes_def)

text \<open>
  C7 (as amended). The decoded image is converted to \<open>RGBA\<close> exactly when its mode is
  not \<open>RGBA\<close>: a run that gets past its first progress line calls \<open>convert\<close> once,
  with \<open>RGBA\<close>, in that case and never otherwise (a run that the first \<open>print\<close> ends
  converts nothing). After a run whose \<open>try\<close> block completes, the file of every table entry
  is the PNG encoding of an image in mode \<open>RGBA\<close> (given that \<open>convert\<close> and
  \<open>resize\<close> return the mode they are documented to, and that \<open>makedirs\<close> and
  \<open>save\<close> touch only what they are given).
\<close>

theorem converted_iff_not_RGBA:
  assumes "pil_open E (disk w) source_path = Inr source_img"
  shows
    "filter is_convert (calls (snd (generate_android_icons E source_path output_dir w))) =
       filter is_convert (calls w) @
         (if stdout_error E (stdout w) (''Loaded source image: '' @ source_path) = None \<and>
             mode source_img \<noteq> ''RGBA''
          then [Call_convert ''RGBA''] else []) \<and>
     (convert_contract E \<and> resize_contract E \<and> makedirs_contract E \<and> save_contract E \<and>
      try_block E source_path output_dir w = (Inr (), w') \<longrightarrow>
        (\<forall>(folder, size_px) \<in> set sizes.
           \<exists>r. files (disk w') (icon_path output_dir folder) = Some (pil_encode E ''PNG'' r) \<and>
               mode r = ''RGBA''))"
proof (intro conjI impI)
  from assms show "filter is_convert (calls (snd (generate_android_icons E source_path output_dir w))) =
       filter is_convert (calls w) @
         (if stdout_error E (stdout w) (''Loaded source image: '' @ source_path) = None \<and>
             mode source_img \<noteq> ''RGBA''
          then [Call_convert ''RGBA''] else [])"
  proof (cases rule: try_block_cases [where out = output_dir])
    case (loaded_fails e wf)
    then show ?thesis by (simp add: generate_calls)
  next
    case (convert_fails e wf)
    then show ?thesis by (simp add: generate_calls)
  next
    case (loop img w3)
    obtain r4 w4 where l: "icons_loop E output_dir img sizes w3 = (r4, w4)"
      by (cases "icons_loop E output_dir img sizes w3")
    from icons_loop_no_convert [OF l] loop(4)
    have "filter is_convert (calls w4) = filter is_convert (calls w) @
         (if mode source_img \<noteq> ''RGBA'' then [Call_convert ''RGBA''] else [])"
      by simp
    moreover from loop(6) l have "calls (snd (try_block E source_path output_dir w)) = calls w4"
      by (cases r4) (simp_all add: print_def split: option.splits)
    moreover note loop(1)
    ultimately show ?thesis by (simp add: generate_calls)
  qed
next
  assume a: "convert_contract E \<and> resize_contract E \<and> makedirs_contract E \<and> save_contract E \<and>
      try_block E source_path output_dir w = (Inr (), w')"
  then have t: "try_block E source_path output_dir w = (Inr (), w')" by simp
  from t show "\<forall>(folder, size_px) \<in> set sizes.
           \<exists>r. files (disk w') (icon_path output_dir folder) = Some (pil_encode E ''PNG'' r) \<and>
               mode r = ''RGBA''"
  proof (rule try_block_success)
    fix img0 img w3 w4
    assume o: "pil_open E (disk w) source_path = Inr img0"
      and n: "normalize E img0 = Inr img"
      and l: "icons_loop E output_dir img sizes w3 = (Inr (), w4)"
      and w': "w' = w4\<lparr>stdout := stdout w4 @
       [check_mark @ '' Android icons generated successfully!'']\<rparr>"
    from n a have m: "mode img = ''RGBA''"
      by (auto simp: normalize_def convert_contract_def split: if_splits)
    show ?thesis
    proof (clarify)
      fix folder size_px
      assume "(folder, size_px) \<in> set sizes"
      from icons_loop_success_entries [OF _ _ l distinct_icon_paths this] a
      obtain r where r: "pil_resize E img (size_px, size_px) LANCZOS = Inr r"
        "files (disk w4) (icon_path output_dir folder) = Some (pil_encode E ''PNG'' r)"
        by auto
      from r(1) a m have "mode r = ''RGBA''" by (auto simp: resize_contract_def)
      with r(2) w' show "\<exists>r. files (disk w') (icon_path output_dir folder) =
          Some (pil_encode E ''PNG'' r) \<and> mode r = ''RGBA''"
        by auto
    qed
  qed
qed

theorem converted_iff_not_RGBA_witness:
  "pil_open demo_env (disk (demo_world ''RGB'')) source_image =
     Inr \<lparr>mode = ''RGB'', imsize = (512, 512), pixels = ''RGB''\<rparr> \<and>
   filter is_convert (calls (snd (generate_android_icons demo_env source_image android_res_dir
     (demo_world ''RGB'')))) = [Call_convert ''RGBA''] \<and>
   fst (try_block demo_env source_image android_res_dir (demo_world ''RGB'')) = Inr () \<and>
   files (disk (snd (try_block demo_env source_image android_res_dir (demo_world ''RGB''))))
     ''android/app/src/main/res/mipmap-mdpi/ic_launcher.png'' = Some ''PNG RGBA 48x48'' \<and>
   files (disk (snd (try_block demo_env source_image android_res_dir (demo_world ''RGB''))))
     ''android/app/src/main/res/mipmap-xxxhdpi/ic_launcher.png'' = Some ''PNG RGBA 192x192''"
proof -
  let ?t = "try_block demo_env source_image android_res_dir (demo_world ''RGB'')"
  have o: "pil_open demo_env (disk (demo_world ''RGB'')) source_image =
     Inr \<lparr>mode = ''RGB'', imsize = (512, 512), pixels = ''RGB''\<rparr>"
    by (simp add: demo_defs)
  have t: "?t = (Inr (), snd ?t)"
    by (simp add: demo_run)
  from converted_iff_not_RGBA [OF o, of android_res_dir "snd ?t"] demo_contracts t o
  show ?thesis
    by (simp add: demo_run generate_calls demo_world_simps)
qed

section \<open>The size table and the files of a complete run\<close>



section \<open>What is done for every entry\<close>



section \<open>Failure in the middle of the table\<close>

text \<open>
  C4. Let the loop complete the entries \<open>pre\<close> of the table and let the next entry
  fail (its \<open>makedirs\<close>, \<open>resize\<close>, \<open>save\<close> or \<open>print\<close> raises \<open>e\<close>). Then the loop
  over the whole table ends there with \<open>e\<close>, in the world the failing entry left:
  the calls made are those of \<open>pre\<close> followed by a non-empty initial part of the
  failing entry's calls, no call of a later entry is made, the files of the later
  entries are what they were before the loop, and the files of the entries of \<open>pre\<close>
  hold what the loop wrote to them. The handler that runs next touches neither the
  file system nor the log of calls.
\<close>

theorem abort_at_first_failure:
  assumes "makedirs_contract E" "save_contract E"
    and "sizes = pre @ (folder, size_px) # post"
    and "icons_loop E output_dir img pre w = (Inr (), w1)"
    and "icons_loop E output_dir img [(folder, size_px)] w1 = (Inl e, w2)"
  shows "icons_loop E output_dir img sizes w = (Inl e, w2) \<and>
    (\<exists>n>0. calls w2 = calls w @ concat (map (entry_calls output_dir) pre) @
        take n (entry_calls output_dir (folder, size_px))) \<and>
    (\<forall>entry \<in> set post. \<forall>c \<in> set (entry_calls output_dir entry).
        c \<notin> set (drop (length (calls w)) (calls w2))) \<and>
    (\<forall>(folder', size') \<in> set post.
        files (disk w2) (icon_path output_dir folder') =
        files (disk w) (icon_path output_dir folder')) \<and>
    (\<forall>(folder', size') \<in> set pre.
        \<exists>r. pil_resize E img (size', size') LANCZOS = Inr r \<and>
            files (disk w1) (icon_path output_dir folder') = Some (pil_encode E ''PNG'' r) \<and>
            files (disk w2) (icon_path output_dir folder') = Some (pil_encode E ''PNG'' r)) \<and>
    disk (snd (except_block E e w2)) = disk w2 \<and>
    calls (snd (except_block E e w2)) = calls w2"
proof -
  let ?path = "\<lambda>entry. icon_path output_dir (fst entry)"
  have d: "distinct (map ?path (pre @ (folder, size_px) # post))"
    using distinct_icon_paths [of output_dir] by (simp only: assms(3))
  have dl: "distinct (pre @ (folder, size_px) # post)"
    using d by (rule distinct_map [THEN iffD1, THEN conjunct1])
  have mem: "set pre \<subseteq> set sizes" "(folder, size_px) \<in> set sizes" "set post \<subseteq> set sizes"
    by (auto simp add: assms(3))
  have run: "icons_loop E output_dir img sizes w = (Inl e, w2)"
    using icons_loop_append [of E output_dir img pre "(folder, size_px) # post" w]
      icons_loop_append [of E output_dir img "[(folder, size_px)]" post w1] assms(3-5)
    by simp
  have c1: "calls w1 = calls w @ concat (map (entry_calls output_dir) pre)"
    by (rule icons_loop_success_calls [OF assms(4)])
  from assms(5) obtain n where n: "0 < n"
    "calls w2 = calls w1 @ take n (entry_calls output_dir (folder, size_px))"
  proof (cases rule: entry_failure_cases)
    case (mkdir_fails d)
    from that [of 1] mkdir_fails(4) show ?thesis by simp
  next
    case (resize_fails d1)
    from that [of 2] resize_fails(5) show ?thesis by simp
  next
    case (save_fails d1 r d2)
    from that [of 3] save_fails(6) show ?thesis by simp
  next
    case (print_fails d1 r d2)
    from that [of 3] print_fails(7) show ?thesis by simp
  qed
  have calls: "\<exists>n>0. calls w2 = calls w @ concat (map (entry_calls output_dir) pre) @
        take n (entry_calls output_dir (folder, size_px))"
    using n c1 by auto
  have later: "c \<notin> set (drop (length (calls w)) (calls w2))"
    if "entry \<in> set post" "c \<in> set (entry_calls output_dir entry)" for entry c
  proof
    assume "c \<in> set (drop (length (calls w)) (calls w2))"
    with n c1 have "c \<in> set (concat (map (entry_calls output_dir) pre)) \<or>
        c \<in> set (take n (entry_calls output_dir (folder, size_px)))"
      by auto
    then obtain e1 where e1: "e1 \<in> set pre \<or> e1 = (folder, size_px)"
      "c \<in> set (entry_calls output_dir e1)"
      by (auto dest: in_set_takeD)
    from e1(1) mem have "e1 \<in> set sizes" by auto
    moreover from that(1) mem have "entry \<in> set sizes" by auto
    ultimately have "e1 = entry" using e1(2) that(2) by (rule entry_calls_disjoint)
    with e1(1) that(1) dl show False by auto
  qed
  note f1 = icons_loop_frame [OF assms(1,2) assms(4)]
  note f2 = icons_loop_frame [OF assms(1,2) assms(5)]
  have post: "files (disk w2) (icon_path output_dir folder') =
        files (disk w) (icon_path output_dir folder')"
    if "(folder', size') \<in> set post" for folder' size'
  proof -
    from that d have "icon_path output_dir folder' \<notin> set (map ?path pre)"
      "icon_path output_dir folder' \<noteq> icon_path output_dir folder"
      by (auto simp: rev_image_eqI)
    with f1 f2 show ?thesis by simp
  qed
  have pre: "\<exists>r. pil_resize E img (size', size') LANCZOS = Inr r \<and>
            files (disk w1) (icon_path output_dir folder') = Some (pil_encode E ''PNG'' r) \<and>
            files (disk w2) (icon_path output_dir folder') = Some (pil_encode E ''PNG'' r)"
    if "(folder', size') \<in> set pre" for folder' size'
  proof -
    from d have "distinct (map ?path pre)" by simp
    from icons_loop_success_entries [OF assms(1,2) assms(4) this that]
    obtain r where r: "pil_resize E img (size', size') LANCZOS = Inr r"
      "files (disk w1) (icon_path output_dir folder') = Some (pil_encode E ''PNG'' r)"
      by auto
    from that d have "icon_path output_dir folder' \<noteq> icon_path output_dir folder"
      by (auto simp: rev_image_eqI)
    with f2 r show ?thesis by simp
  qed
  have handler: "disk (snd (except_block E e w2)) = disk w2 \<and>
    calls (snd (except_block E e w2)) = calls w2"
    by simp
  from run calls later post pre handler show ?thesis by blast
qed

theorem abort_at_first_failure_witness:
  "makedirs_contract full_disk_env \<and> save_contract full_disk_env \<and>
   sizes = take 2 sizes @ (''mipmap-xhdpi'', 96) # drop 3 sizes \<and>
   fst (icons_loop full_disk_env android_res_dir demo_img (take 2 sizes) (demo_world ''RGB'')) =
     Inr () \<and>
   fst (icons_loop full_disk_env android_res_dir demo_img [(''mipmap-xhdpi'', 96)]
     (snd (icons_loop full_disk_env android_res_dir demo_img (take 2 sizes)
        (demo_world ''RGB'')))) = Inl (Exception ''[Errno 28] No space left on device'') \<and>
   fst (icons_loop full_disk_env android_res_dir demo_img sizes (demo_world ''RGB'')) =
     Inl (Exception ''[Errno 28] No space left on device'') \<and>
   calls (snd (icons_loop full_disk_env android_res_dir demo_img sizes (demo_world ''RGB''))) =
     [Call_makedirs ''android/app/src/main/res/mipmap-mdpi'' True,
      Call_resize (48, 48) LANCZOS,
      Call_save ''android/app/src/main/res/mipmap-mdpi/ic_launcher.png'' ''PNG'',
      Call_makedirs ''android/app/src/main/res/mipmap-hdpi'' True,
      Call_resize (72, 72) LANCZOS,
      Call_save ''android/app/src/main/res/mipmap-hdpi/ic_launcher.png'' ''PNG'',
      Call_makedirs ''android/app/src/main/res/mipmap-xhdpi'' True,
      Call_resize (96, 96) LANCZOS,
      Call_save ''android/app/src/main/res/mipmap-xhdpi/ic_launcher.png'' ''PNG''] \<and>
   files (disk (snd (icons_loop full_disk_env android_res_dir demo_img sizes (demo_world ''RGB''))))
     ''android/app/src/main/res/mipmap-hdpi/ic_launcher.png'' = Some ''PNG RGBA 72x72'' \<and>
   files (disk (snd (icons_loop full_disk_env android_res_dir demo_img sizes (demo_world ''RGB''))))
     ''android/app/src/main/res/mipmap-xxhdpi/ic_launcher.png'' = None"
proof -
  let ?l1 = "icons_loop full_disk_env android_res_dir demo_img (take 2 sizes) (demo_world ''RGB'')"
  have h1: "?l1 = (Inr (), snd ?l1)"
    using full_disk_pre by (cases ?l1) simp
  note inst = abort_at_first_failure
    [OF full_disk_contracts(3,4) sizes_split h1 full_disk_entry]
  note run = inst [THEN conjunct1]
  have c5: "fst (icons_loop full_disk_env android_res_dir demo_img [(''mipmap-xhdpi'', 96)]
     (snd ?l1)) = Inl (Exception ''[Errno 28] No space left on device'')"
    by (simp only: full_disk_entry fst_conv)
  have c6: "fst (icons_loop full_disk_env android_res_dir demo_img sizes (demo_world ''RGB'')) =
     Inl (Exception ''[Errno 28] No space left on device'')"
    by (simp only: run fst_conv)
  have c7: "calls (snd (icons_loop full_disk_env android_res_dir demo_img sizes (demo_world ''RGB''))) =
     [Call_makedirs ''android/app/src/main/res/mipmap-mdpi'' True,
      Call_resize (48, 48) LANCZOS,
      Call_save ''android/app/src/main/res/mipmap-mdpi/ic_launcher.png'' ''PNG'',
      Call_makedirs ''android/app/src/main/res/mipmap-hdpi'' True,
      Call_resize (72, 72) LANCZOS,
      Call_save ''android/app/src/main/res/mipmap-hdpi/ic_launcher.png'' ''PNG'',
      Call_makedirs ''android/app/src/main/res/mipmap-xhdpi'' True,
      Call_resize (96, 96) LANCZOS,
      Call_save ''android/app/src/main/res/mipmap-xhdpi/ic_launcher.png'' ''PNG'']"
    by (simp only: run snd_conv) simp
  have c8: "files (disk (snd (icons_loop full_disk_env android_res_dir demo_img sizes
      (demo_world ''RGB''))))
     ''android/app/src/main/res/mipmap-hdpi/ic_launcher.png'' = Some ''PNG RGBA 72x72''"
    by (simp only: run snd_conv) simp
  have c9: "files (disk (snd (icons_loop full_disk_env android_res_dir demo_img sizes
      (demo_world ''RGB''))))
     ''android/app/src/main/res/mipmap-xxhdpi/ic_launcher.png'' = None"
    by (simp only: run snd_conv) simp
  from full_disk_contracts(3,4) sizes_split full_disk_pre c5 c6 c7 c8 c9
  show ?thesis by blast
qed

text \<open>
  C10. In the same situation, if the \<open>makedirs\<close> of the failing entry returned (so
  that the \<open>resize\<close> or the \<open>save\<close> is what raised, or the \<open>print\<close> after a
  \<open>save\<close> that returned), the folder of that entry exists when the loop ends, and
  \<open>makedirs\<close> was called before \<open>resize\<close> and \<open>save\<close>. When the \<open>resize\<close>
  raised, the entry's file is what it was before the loop. The folders and files of the
  entries of \<open>pre\<close> are there as well.
\<close>

theorem directory_made_before_resize_and_save:
  assumes "makedirs_contract E" "save_contract E"
    and "sizes = pre @ (folder, size_px) # post"
    and "icons_loop E output_dir img pre w = (Inr (), w1)"
    and "os_mkdirs E (disk w1) (os_path_join output_dir folder) True = (None, d1)"
    and "icons_loop E output_dir img [(folder, size_px)] w1 = (Inl e, w2)"
  shows "icons_loop E output_dir img sizes w = (Inl e, w2) \<and>
    os_path_join output_dir folder \<in> dirs (disk w2) \<and>
    (pil_resize E img (size_px, size_px) LANCZOS = Inl e \<and>
       calls w2 = calls w1 @
         [Call_makedirs (os_path_join output_dir folder) True,
          Call_resize (size_px, size_px) LANCZOS] \<and>
       files (disk w2) (icon_path output_dir folder) =
         files (disk w) (icon_path output_dir folder)
     \<or>
     (\<exists>r. pil_resize E img (size_px, size_px) LANCZOS = Inr r \<and>
          fst (pil_save E d1 r (icon_path output_dir folder) ''PNG'') = Some e) \<and>
       calls w2 = calls w1 @
         [Call_makedirs (os_path_join output_dir folder) True,
          Call_resize (size_px, size_px) LANCZOS,
          Call_save (icon_path output_dir folder) ''PNG'']
     \<or>
     (\<exists>r. pil_resize E img (size_px, size_px) LANCZOS = Inr r \<and>
          fst (pil_save E d1 r (icon_path output_dir folder) ''PNG'') = None) \<and>
       stdout_error E (stdout w1) (generated_line (icon_path output_dir folder) size_px) =
         Some e \<and>
       calls w2 = calls w1 @
         [Call_makedirs (os_path_join output_dir folder) True,
          Call_resize (size_px, size_px) LANCZOS,
          Call_save (icon_path output_dir folder) ''PNG'']) \<and>
    (\<forall>(folder', size') \<in> set pre.
        os_path_join output_dir folder' \<in> dirs (disk w2) \<and>
        (\<exists>r. pil_resize E img (size', size') LANCZOS = Inr r \<and>
            files (disk w2) (icon_path output_dir folder') = Some (pil_encode E ''PNG'' r)))"
proof -
  let ?path = "\<lambda>entry. icon_path output_dir (fst entry)"
  have d: "distinct (map ?path (pre @ (folder, size_px) # post))"
    using distinct_icon_paths [of output_dir] by (simp only: assms(3))
  have run: "icons_loop E output_dir img sizes w = (Inl e, w2)"
    using icons_loop_append [of E output_dir img pre "(folder, size_px) # post" w]
      icons_loop_append [of E output_dir img "[(folder, size_px)]" post w1] assms(3,4,6)
    by simp
  note f1 = icons_loop_frame [OF assms(1,2) assms(4)]
  note f2 = icons_loop_frame [OF assms(1,2) assms(6)]
  from assms(1,5) have m: "os_path_join output_dir folder \<in> dirs d1" "files d1 = files (disk w1)"
    unfolding makedirs_contract_def by blast+
  from d have np: "icon_path output_dir folder \<notin> set (map ?path pre)" by auto
  have "os_path_join output_dir folder \<in> dirs (disk w2) \<and>
    (pil_resize E img (size_px, size_px) LANCZOS = Inl e \<and>
       calls w2 = calls w1 @
         [Call_makedirs (os_path_join output_dir folder) True,
          Call_resize (size_px, size_px) LANCZOS] \<and>
       files (disk w2) (icon_path output_dir folder) =
         files (disk w) (icon_path output_dir folder)
     \<or>
     (\<exists>r. pil_resize E img (size_px, size_px) LANCZOS = Inr r \<and>
          fst (pil_save E d1 r (icon_path output_dir folder) ''PNG'') = Some e) \<and>
       calls w2 = calls w1 @
         [Call_makedirs (os_path_join output_dir folder) True,
          Call_resize (size_px, size_px) LANCZOS,
          Call_save (icon_path output_dir folder) ''PNG'']
     \<or>
     (\<exists>r. pil_resize E img (size_px, size_px) LANCZOS = Inr r \<and>
          fst (pil_save E d1 r (icon_path output_dir folder) ''PNG'') = None) \<and>
       stdout_error E (stdout w1) (generated_line (icon_path output_dir folder) size_px) =
         Some e \<and>
       calls w2 = calls w1 @
         [Call_makedirs (os_path_join output_dir folder) True,
          Call_resize (size_px, size_px) LANCZOS,
          Call_save (icon_path output_dir folder) ''PNG''])"
    using assms(6)
  proof (cases rule: entry_failure_cases)
    case (mkdir_fails d)
    with assms(5) show ?thesis by simp
  next
    case (resize_fails d1')
    with assms(5) have "d1' = d1" by simp
    with resize_fails m f1 np show ?thesis by (simp add: entry_calls_def)
  next
    case (save_fails d1' r d2)
    with assms(5) have d1': "d1' = d1" by simp
    from assms(2) save_fails(3) have "dirs d2 = dirs d1'"
      unfolding save_contract_def by blast
    with save_fails m d1' show ?thesis by (simp add: entry_calls_def)
  next
    case (print_fails d1' r d2)
    with assms(5) have d1': "d1' = d1" by simp
    from assms(2) print_fails(3) have "dirs d2 = dirs d1'"
      unfolding save_contract_def by blast
    with print_fails m d1' show ?thesis by (simp add: entry_calls_def)
  qed
  moreover have "os_path_join output_dir folder' \<in> dirs (disk w2) \<and>
        (\<exists>r. pil_resize E img (size', size') LANCZOS = Inr r \<and>
            files (disk w2) (icon_path output_dir folder') = Some (pil_encode E ''PNG'' r))"
    if "(folder', size') \<in> set pre" for folder' size'
  proof -
    from d have "distinct (map ?path pre)" by simp
    from icons_loop_success_entries [OF assms(1,2) assms(4) this that]
    obtain r where r: "pil_resize E img (size', size') LANCZOS = Inr r"
      "files (disk w1) (icon_path output_dir folder') = Some (pil_encode E ''PNG'' r)"
      "os_path_join output_dir folder' \<in> dirs (disk w1)"
      by auto
    from that d have "icon_path output_dir folder' \<noteq> icon_path output_dir folder"
      by (auto simp: rev_image_eqI)
    with f2 r show ?thesis by auto
  qed
  ultimately show ?thesis using run by blast
qed

theorem directory_made_witness:
  "makedirs_contract full_disk_env \<and> save_contract full_disk_env \<and>
   sizes = take 2 sizes @ (''mipmap-xhdpi'', 96) # drop 3 sizes \<and>
   fst (icons_loop full_disk_env android_res_dir demo_img (take 2 sizes) (demo_world ''RGB'')) =
     Inr () \<and>
   fst (os_mkdirs full_disk_env
     (disk (snd (icons_loop full_disk_env android_res_dir demo_img (take 2 sizes)
        (demo_world ''RGB''))))
     (os_path_join android_res_dir ''mipmap-xhdpi'') True) = None \<and>
   fst (icons_loop full_disk_env android_res_dir demo_img sizes (demo_world ''RGB'')) =
     Inl (Exception ''[Errno 28] No space left on device'') \<and>
   ''android/app/src/main/res/mipmap-xhdpi'' \<in>
     dirs (disk (snd (icons_loop full_disk_env android_res_dir demo_img sizes
       (demo_world ''RGB'')))) \<and>
   files (disk (snd (icons_loop full_disk_env android_res_dir demo_img sizes (demo_world ''RGB''))))
     ''android/app/src/main/res/mipmap-xhdpi/ic_launcher.png'' = None \<and>
   files (disk (snd (icons_loop full_disk_env android_res_dir demo_img sizes (demo_world ''RGB''))))
     ''android/app/src/main/res/mipmap-mdpi/ic_launcher.png'' = Some ''PNG RGBA 48x48''"
proof -
  let ?l1 = "icons_loop full_disk_env android_res_dir demo_img (take 2 sizes) (demo_world ''RGB'')"
  let ?m = "os_mkdirs full_disk_env (disk (snd ?l1))
     (os_path_join android_res_dir ''mipmap-xhdpi'') True"
  have h1: "?l1 = (Inr (), snd ?l1)"
    using full_disk_pre by (cases ?l1) simp
  have m: "fst ?m = None"
    by (simp add: demo_defs)
  then have h2: "?m = (None, snd ?m)"
    by (cases ?m) simp
  note inst = directory_made_before_resize_and_save
    [OF full_disk_contracts(3,4) sizes_split h1 h2 full_disk_entry]
  note run = inst [THEN conjunct1]
  have c6: "fst (icons_loop full_disk_env android_res_dir demo_img sizes (demo_world ''RGB'')) =
     Inl (Exception ''[Errno 28] No space left on device'')"
    by (simp only: run fst_conv)
  have c7: "''android/app/src/main/res/mipmap-xhdpi'' \<in>
     dirs (disk (snd (icons_loop full_disk_env android_res_dir demo_img sizes
       (demo_world ''RGB''))))"
    by (simp only: run snd_conv) simp
  have c8: "files (disk (snd (icons_loop full_disk_env android_res_dir demo_img sizes
      (demo_world ''RGB''))))
     ''android/app/src/main/res/mipmap-xhdpi/ic_launcher.png'' = None"
    by (simp only: run snd_conv) simp
  have c9: "files (disk (snd (icons_loop full_disk_env android_res_dir demo_img sizes
      (demo_world ''RGB''))))
     ''android/app/src/main/res/mipmap-mdpi/ic_launcher.png'' = Some ''PNG RGBA 48x48''"
    by (simp only: run snd_conv) simp
  from full_disk_contracts(3,4) sizes_split full_disk_pre m c6 c7 c8 c9
  show ?thesis by blast
qed

section \<open>Running twice\<close>

text \<open>
  C8. Let a first run complete, let a second run on the world the first one left
  complete too, and let the source decode to the same image both times. Then the files
  after the second run are exactly the files after the first, byte for byte; no
  directory is lost; and when \<open>makedirs\<close> makes nothing for a directory that exists,
  the whole file system is the same. (\<open>resize\<close> and the encoder are functions of
  their arguments: the same library gives the same bytes.)
\<close>

theorem rerun_leaves_same_files:
  assumes "makedirs_contract E" "save_contract E"
    and "try_block E source_path output_dir w = (Inr (), w1)"
    and "try_block E source_path output_dir w1 = (Inr (), w2)"
    and "pil_open E (disk w1) source_path = pil_open E (disk w) source_path"
  shows "generate_android_icons E source_path output_dir w = (Inr (), w1) \<and>
    generate_android_icons E source_path output_dir w1 = (Inr (), w2) \<and>
    files (disk w2) = files (disk w1) \<and>
    dirs (disk w1) \<subseteq> dirs (disk w2) \<and>
    (makedirs_exist_ok E \<longrightarrow> disk w2 = disk w1)"
proof -
  from assms(3) obtain img0 img w3 w4 where a:
    "pil_open E (disk w) source_path = Inr img0" "normalize E img0 = Inr img"
    "disk w3 = disk w" "icons_loop E output_dir img sizes w3 = (Inr (), w4)"
    "w1 = w4\<lparr>stdout := stdout w4 @
       [check_mark @ '' Android icons generated successfully!'']\<rparr>"
    by (rule try_block_success)
  from assms(4) obtain img0' img' w3' w4' where b:
    "pil_open E (disk w1) source_path = Inr img0'" "normalize E img0' = Inr img'"
    "disk w3' = disk w1" "icons_loop E output_dir img' sizes w3' = (Inr (), w4')"
    "w2 = w4'\<lparr>stdout := stdout w4' @
       [check_mark @ '' Android icons generated successfully!'']\<rparr>"
    by (rule try_block_success)
  from a(1,2) b(1,2) assms(5) have same: "img' = img" by simp
  note l1 = a(4) and l2 = b(4) [unfolded same]
  have f1: "files (disk w1) = written E output_dir img sizes (files (disk w))"
    using icons_loop_success_written [OF assms(1,2) l1] a(3,5) by simp
  have f2: "files (disk w2) = written E output_dir img sizes (files (disk w1))"
    using icons_loop_success_written [OF assms(1,2) l2] b(3,5) by simp
  have files: "files (disk w2) = files (disk w1)"
    by (simp only: f2) (simp only: f1 written_idem)
  have mono: "dirs (disk w1) \<subseteq> dirs (disk w2)"
    using icons_loop_frame [OF assms(1,2) l2] b(3,5) by simp
  have same_disk: "disk w2 = disk w1" if ok: "makedirs_exist_ok E"
  proof -
    have "\<forall>entry \<in> set sizes. os_path_join output_dir (fst entry) \<in> dirs (disk w3')"
    proof
      fix entry assume e: "entry \<in> set sizes"
      obtain folder size_px where fs: "entry = (folder, size_px)" by (cases entry)
      from icons_loop_success_entries
        [OF assms(1,2) l1 distinct_icon_paths e [unfolded fs]] a(5) b(3)
      show "os_path_join output_dir (fst entry) \<in> dirs (disk w3')" by (auto simp: fs)
    qed
    from icons_loop_dirs_unchanged [OF ok assms(2) l2 this] b(3,5)
    have "dirs (disk w2) = dirs (disk w1)" by simp
    with files show ?thesis by simp
  qed
  from assms(3,4) files mono same_disk show ?thesis
    by (simp add: generate_on_success)
qed

theorem rerun_witness:
  "makedirs_contract demo_env \<and> save_contract demo_env \<and> makedirs_exist_ok demo_env \<and>
   try_block demo_env source_image android_res_dir (demo_world ''RGB'') = (Inr (), once) \<and>
   fst (try_block demo_env source_image android_res_dir once) = Inr () \<and>
   pil_open demo_env (disk once) source_image =
     pil_open demo_env (disk (demo_world ''RGB'')) source_image \<and>
   files (disk (snd (try_block demo_env source_image android_res_dir once))) = files (disk once) \<and>
   disk (snd (try_block demo_env source_image android_res_dir once)) = disk once \<and>
   files (disk once) ''android/app/src/main/res/mipmap-xhdpi/ic_launcher.png'' =
     Some ''PNG RGBA 96x96''"
proof -
  let ?t2 = "try_block demo_env source_image android_res_dir once"
  have h2: "?t2 = (Inr (), snd ?t2)"
    using twice_ok by (cases ?t2) simp
  have o: "pil_open demo_env (disk once) source_image =
     pil_open demo_env (disk (demo_world ''RGB'')) source_image"
    by (simp only: once_disk) (simp add: demo_defs)
  note inst = rerun_leaves_same_files [OF demo_contracts(3,4) once_eq h2 o]
  from inst demo_exist_ok
  have c: "files (disk (snd ?t2)) = files (disk once)" "disk (snd ?t2) = disk once"
    by blast+
  have f: "files (disk once) ''android/app/src/main/res/mipmap-xhdpi/ic_launcher.png'' =
     Some ''PNG RGBA 96x96''"
    by (simp only: once_disk) simp
  from demo_contracts(3,4) demo_exist_ok once_eq twice_ok o c f show ?thesis by blast
qed

end
